theory Spec2Isabelle
  imports Complex_Main
begin

text \<open>
  A shallow embedding of the follicle joint tool: the naming utilities, the type
  descriptor, UV normalisation and grid placement of the rigging engine
  (\<^verbatim>\<open>follicleJnts.py\<close>), the unit operations freeze, copyValuesToMirror and
  transferToPatch over a model of the host scene, and the reversible-call wrapper of the
  panel (\<^verbatim>\<open>follicleJnts_UI.py\<close>). Definitions come first, the verified properties
  after them.
\<close>

section \<open>Python exceptions\<close>

text \<open>
  Every \<^verbatim>\<open>raise\<close> of the source is a value: the exception class with its message
  (the format string of the source, its \<^verbatim>\<open>%\<close> arguments left out). \<open>Unmodelled\<close>
  marks library behaviour outside the fragment embedded here.
\<close>

datatype error =
    StandardError string
  | TypeError string
  | ValueError string
  | KeyError string
  | IndexError string
  | AttributeError string
  | AssertionError string
  | NameError string
  | RuntimeError string
  | ZeroDivisionError string
  | Unmodelled string

section \<open>Naming utilities\<close>

subsection \<open>splitNumberedName\<close>

text \<open>
  \<^verbatim>\<open>string.digits\<close> of the Python standard library.
\<close>

definition string_digits :: string where
  "string_digits = ''0123456789''"

text \<open>
  The three-element list \<^verbatim>\<open>splitStrs\<close> is a triple (prefix, number, suffix);
  \<^verbatim>\<open>splitStrs[i] = c + splitStrs[i]\<close> puts the character in front of slot \<open>i\<close>.
  The index only takes the values 2, 1 and 0.
\<close>

fun prependAt :: "nat \<Rightarrow> char \<Rightarrow> string \<times> string \<times> string \<Rightarrow> string \<times> string \<times> string" where
  "prependAt i c (p, n, s) =
     (if i = 0 then (c # p, n, s) else if i = 1 then (p, c # n, s) else (p, n, c # s))"

text \<open>
  The body of \<^verbatim>\<open>for c in reversed(name)\<close>: the characters still to visit, the
  list \<^verbatim>\<open>splitStrs\<close>, the slot index \<^verbatim>\<open>i\<close> and the flag \<^verbatim>\<open>digitLast\<close>.
\<close>

fun splitLoop :: "string \<Rightarrow> string \<Rightarrow> string \<times> string \<times> string \<Rightarrow> nat \<Rightarrow> bool
    \<Rightarrow> string \<times> string \<times> string" where
  "splitLoop findChars [] splitStrs i digitLast = splitStrs"
| "splitLoop findChars (c # cs) splitStrs i digitLast =
     (if i > 0 then
        (if c \<in> set findChars then
           (let i' = (if \<not> digitLast then i - 1 else i)
            in splitLoop findChars cs (prependAt i' c splitStrs) i' True)
         else
           (let i' = (if digitLast then i - 1 else i)
            in splitLoop findChars cs (prependAt i' c splitStrs) i' False))
      else splitLoop findChars cs (prependAt i c splitStrs) i digitLast)"

text \<open>
  \<^verbatim>\<open>if alternateFindChar: findChars = alternateFindChar else: findChars = string.digits\<close>:
  \<^verbatim>\<open>None\<close> and the empty string are both falsy.
\<close>

definition findCharsOf :: "string option \<Rightarrow> string" where
  "findCharsOf alternateFindChar =
     (case alternateFindChar of
        None \<Rightarrow> string_digits
      | Some a \<Rightarrow> (if a \<noteq> [] then a else string_digits))"

definition splitNumberedName :: "string \<Rightarrow> string option \<Rightarrow> string \<times> string \<times> string" where
  "splitNumberedName name alternateFindChar =
     (let findChars = findCharsOf alternateFindChar;
          splitStrs = splitLoop findChars (rev name) ([], [], []) 2 False
      in if fst (snd splitStrs) = [] then (name, [], []) else splitStrs)"

text \<open>
  The split as the specification words it: the suffix is the longest run of
  non-matching characters at the end of the name, the number is the run of matching
  characters adjacent to it, the prefix is what remains; without a matching run the
  whole name is the prefix.
\<close>

definition trailingRun :: "(char \<Rightarrow> bool) \<Rightarrow> string \<Rightarrow> string" where
  "trailingRun P name = rev (takeWhile P (rev name))"

definition withoutTrailingRun :: "(char \<Rightarrow> bool) \<Rightarrow> string \<Rightarrow> string" where
  "withoutTrailingRun P name = rev (dropWhile P (rev name))"

definition splitSpec :: "string \<Rightarrow> string \<Rightarrow> string \<times> string \<times> string" where
  "splitSpec findChars name =
     (let suffix = trailingRun (\<lambda>c. c \<notin> set findChars) name;
          front = withoutTrailingRun (\<lambda>c. c \<notin> set findChars) name;
          number = trailingRun (\<lambda>c. c \<in> set findChars) front;
          prefix = withoutTrailingRun (\<lambda>c. c \<in> set findChars) front
      in if number = [] then (name, [], []) else (prefix, number, suffix))"

subsection \<open>joinNumberedName\<close>

text \<open>
  The \<^verbatim>\<open>num\<close> argument: \<^verbatim>\<open>None\<close>, a string or an integer.
\<close>

datatype numArg = NumNone | NumStr string | NumInt int

text \<open>
  \<^verbatim>\<open>int(s)\<close> on a byte string: surrounding whitespace is dropped, one sign is
  allowed, and at least one decimal digit must follow; anything else raises ValueError.
\<close>

definition py_isspace :: "char \<Rightarrow> bool" where
  "py_isspace c = (c \<in> set [CHR '' '', CHR 0x09, CHR 0x0A, CHR 0x0B, CHR 0x0C, CHR 0x0D])"

definition py_strip :: "string \<Rightarrow> string" where
  "py_strip s = rev (dropWhile py_isspace (rev (dropWhile py_isspace s)))"

definition digitVal :: "char \<Rightarrow> nat" where
  "digitVal c = of_char c - 48"

definition decValue :: "string \<Rightarrow> nat" where
  "decValue ds = foldl (\<lambda>acc c. 10 * acc + digitVal c) 0 ds"

definition py_int :: "string \<Rightarrow> error + int" where
  "py_int s =
     (let t = py_strip s;
          neg = (case t of c # _ \<Rightarrow> c = CHR ''-'' | [] \<Rightarrow> False);
          body = (case t of c # r \<Rightarrow> (if c = CHR ''-'' \<or> c = CHR ''+'' then r else t) | [] \<Rightarrow> [])
      in if body \<noteq> [] \<and> list_all (\<lambda>c. c \<in> set string_digits) body
         then Inr (if neg then - int (decValue body) else int (decValue body))
         else Inl (ValueError ''invalid literal for int() with base 10''))"

text \<open>
  \<^verbatim>\<open>str\<close> of an integer, in decimal.
\<close>

fun natStr :: "nat \<Rightarrow> string" where
  "natStr n = (if n < 10 then [string_digits ! n] else natStr (n div 10) @ [string_digits ! (n mod 10)])"

declare natStr.simps [simp del]

definition intStr :: "int \<Rightarrow> string" where
  "intStr n = (if n < 0 then CHR ''-'' # natStr (nat (- n)) else natStr (nat n))"

text \<open>
  \<^verbatim>\<open>"{num:0>{pad}}".format(num=num, pad=numPadding)\<close> on an integer: the decimal
  string, right-aligned with fill character 0. The format specification is the text
  \<^verbatim>\<open>0>\<close> followed by the decimal of \<^verbatim>\<open>pad\<close>; a minus sign there is read as the
  sign option, so the width is the absolute value of \<^verbatim>\<open>pad\<close>.
\<close>

definition padNumber :: "int \<Rightarrow> int \<Rightarrow> string" where
  "padNumber n pad = (let s = intStr n in replicate (nat \<bar>pad\<bar> - length s) CHR ''0'' @ s)"

definition numStrOf :: "numArg \<Rightarrow> int \<Rightarrow> error + string" where
  "numStrOf num numPadding =
     (case num of
        NumNone \<Rightarrow> Inr []
      | NumStr s \<Rightarrow>
          (if s = [] then Inr []
           else (case py_int s of Inl e \<Rightarrow> Inl e | Inr n \<Rightarrow> Inr (padNumber n numPadding)))
      | NumInt n \<Rightarrow> Inr (padNumber n numPadding))"

text \<open>
  \<^verbatim>\<open>str.format\<close> with keyword arguments only, on the fragment the name formats use:
  literal text, the escapes \<^verbatim>\<open>{{\<close> and \<^verbatim>\<open>}}\<close>, and replacement fields
  \<^verbatim>\<open>{name}\<close> holding a plain keyword. The second argument is the field name read
  so far (reversed) while inside braces. A missing keyword raises KeyError, an empty or
  numeric field asks for a positional argument that is not there (IndexError), a lone
  brace raises ValueError; conversions, format specifications and attribute or index
  access are outside the fragment.
\<close>

fun consOk :: "char \<Rightarrow> error + string \<Rightarrow> error + string" where
  "consOk c (Inl e) = Inl e"
| "consOk c (Inr s) = Inr (c # s)"

fun appendOk :: "string \<Rightarrow> error + string \<Rightarrow> error + string" where
  "appendOk v (Inl e) = Inl e"
| "appendOk v (Inr s) = Inr (v @ s)"

fun py_format :: "(string \<rightharpoonup> string) \<Rightarrow> string option \<Rightarrow> string \<Rightarrow> error + string" where
  "py_format kw None [] = Inr []"
| "py_format kw (Some f) [] = Inl (ValueError ''expected } before end of string'')"
| "py_format kw None (c # cs) =
     (if c = CHR ''{'' then
        (case cs of
           d # ds \<Rightarrow> (if d = CHR ''{'' then consOk CHR ''{'' (py_format kw None ds)
                      else py_format kw (Some []) cs)
         | [] \<Rightarrow> Inl (ValueError ''Single { encountered in format string''))
      else if c = CHR ''}'' then
        (case cs of
           d # ds \<Rightarrow> (if d = CHR ''}'' then consOk CHR ''}'' (py_format kw None ds)
                      else Inl (ValueError ''Single } encountered in format string''))
         | [] \<Rightarrow> Inl (ValueError ''Single } encountered in format string''))
      else consOk c (py_format kw None cs))"
| "py_format kw (Some f) (c # cs) =
     (if c = CHR ''}'' then
        (if f = [] \<or> list_all (\<lambda>d. d \<in> set string_digits) f
         then Inl (IndexError ''tuple index out of range'')
         else (case kw (rev f) of
                 None \<Rightarrow> Inl (KeyError (rev f))
               | Some v \<Rightarrow> appendOk v (py_format kw None cs)))
      else if c \<in> set ''{!:.[]'' then Inl (Unmodelled ''format field syntax'')
      else py_format kw (Some (c # f)) cs)"

text \<open>
  \<^verbatim>\<open>nameDef.replace('#', numStr)\<close>: every occurrence is replaced.
\<close>

definition replaceHash :: "string \<Rightarrow> string \<Rightarrow> string" where
  "replaceHash numStr nameDef = concat (map (\<lambda>c. if c = CHR ''#'' then numStr else [c]) nameDef)"

definition defaultNameFormat :: string where
  "defaultNameFormat = ''{pre}{num}{suf}''"

text \<open>
  \<^verbatim>\<open>if not prefix: prefix = ''\<close> and \<^verbatim>\<open>if nameDef:\<close> treat \<^verbatim>\<open>None\<close> and the empty
  string alike.
\<close>

definition orEmpty :: "string option \<Rightarrow> string" where
  "orEmpty x = (case x of None \<Rightarrow> [] | Some s \<Rightarrow> s)"

definition joinNumberedName ::
    "string option \<Rightarrow> numArg \<Rightarrow> string option \<Rightarrow> int \<Rightarrow> string \<Rightarrow> string option \<Rightarrow> error + string" where
  "joinNumberedName prefix num suffix numPadding nameFormat nameDef =
     (case numStrOf num numPadding of
        Inl e \<Rightarrow> Inl e
      | Inr numStr \<Rightarrow>
          (if orEmpty nameDef \<noteq> [] then
             (if CHR ''#'' \<notin> set (orEmpty nameDef)
              then Inl (TypeError ''A nameTemplate must contain a # symbol for the number!'')
              else Inr (replaceHash numStr (orEmpty nameDef)))
           else py_format [''pre'' \<mapsto> orEmpty prefix, ''num'' \<mapsto> numStr, ''suf'' \<mapsto> orEmpty suffix]
                  None nameFormat))"

section \<open>The type descriptor FolJntType\<close>

text \<open>
  The class attribute \<^verbatim>\<open>_typeNames\<close>; \<^verbatim>\<open>validTypes\<close> is its list of keys, used
  here for membership only.
\<close>

definition typeNames :: "(string \<times> string) list" where
  "typeNames =
     [(''t/f'', ''defaultFollicle''),
      (''t/f-j'', ''follicleJointStandard''),
      (''t-j/f'', ''follicleJointReverse''),
      (''j/f'', ''follicleJoint'')]"

definition validTypes :: "string list" where
  "validTypes = map fst typeNames"

text \<open>
  The instance attributes \<^verbatim>\<open>_name\<close>, \<^verbatim>\<open>_typeString\<close> and \<^verbatim>\<open>controlNode\<close>, each
  \<^verbatim>\<open>None\<close> until assigned.
\<close>

record FolJntType =
  p_name :: "string option"
  p_typeString :: "string option"
  controlNode :: "string option"

text \<open>
  \<^verbatim>\<open>s.partition(sep)\<close> for a non-empty separator: the text before the first
  occurrence, the separator, the text after it; the whole string and two empty strings
  when the separator does not occur.
\<close>

fun partitionFrom :: "string \<Rightarrow> string \<Rightarrow> string \<Rightarrow> string \<times> string \<times> string" where
  "partitionFrom sep before [] = (rev before, [], [])"
| "partitionFrom sep before (c # cs) =
     (if take (length sep) (c # cs) = sep
      then (rev before, sep, drop (length sep) (c # cs))
      else partitionFrom sep (c # before) cs)"

definition py_partition :: "string \<Rightarrow> string \<Rightarrow> string \<times> string \<times> string" where
  "py_partition s sep = partitionFrom sep [] s"

text \<open>
  The property \<^verbatim>\<open>typeString\<close>: the stored string when it is set and non-empty.
\<close>

definition typeString :: "FolJntType \<Rightarrow> error + string" where
  "typeString self =
     (case p_typeString self of
        Some s \<Rightarrow> (if s \<noteq> [] then Inr s
                   else Inl (AttributeError ''typeString value has not been assigned!''))
      | None \<Rightarrow> Inl (AttributeError ''typeString value has not been assigned!''))"

definition hasTransform :: "FolJntType \<Rightarrow> error + bool" where
  "hasTransform self =
     (case typeString self of Inl e \<Rightarrow> Inl e | Inr s \<Rightarrow> Inr (CHR ''t'' \<in> set s))"

definition hasJoint :: "FolJntType \<Rightarrow> error + bool" where
  "hasJoint self =
     (case typeString self of Inl e \<Rightarrow> Inl e | Inr s \<Rightarrow> Inr (CHR ''j'' \<in> set s))"

definition hasOffsetTransform :: "FolJntType \<Rightarrow> error + bool" where
  "hasOffsetTransform self =
     (case hasTransform self of
        Inl e \<Rightarrow> Inl e
      | Inr t \<Rightarrow> (if t then hasJoint self else Inr False))"

definition topTransform :: "FolJntType \<Rightarrow> error + string" where
  "topTransform self =
     (case hasTransform self of
        Inl e \<Rightarrow> Inl e
      | Inr t \<Rightarrow>
          (if t then Inr ''t''
           else (case hasJoint self of
                   Inl e \<Rightarrow> Inl e
                 | Inr j \<Rightarrow> (if j then Inr ''j''
                             else Inl (AttributeError ''Error identifying top transform!'')))))"

text \<open>
  \<^verbatim>\<open>self.typeString.partition('/f')[0][-1]\<close>: the last character of what stands
  before \<^verbatim>\<open>/f\<close>, IndexError when nothing does.
\<close>

definition follicleParent :: "FolJntType \<Rightarrow> error + string" where
  "follicleParent self =
     (case typeString self of
        Inl e \<Rightarrow> Inl e
      | Inr s \<Rightarrow>
          (case fst (py_partition s ''/f'') of
             [] \<Rightarrow> Inl (IndexError ''string index out of range'')
           | c # cs \<Rightarrow> Inr [last (c # cs)]))"

definition FolJntType_set :: "FolJntType \<Rightarrow> string \<Rightarrow> error + FolJntType" where
  "FolJntType_set self ts =
     (if ts \<notin> set validTypes
      then Inl (AssertionError ''%r is not a valid follicle joint type string!'')
      else (let self1 = self\<lparr>p_typeString := Some ts\<rparr>
            in (case hasJoint self1 of
                  Inl e \<Rightarrow> Inl e
                | Inr j \<Rightarrow> Inr (self1\<lparr>controlNode := Some (if j then ''j'' else ''f'')\<rparr>))))"

text \<open>
  \<^verbatim>\<open>__init__\<close>: all three attributes start as \<^verbatim>\<open>None\<close>, and
  \<^verbatim>\<open>if typeString: self.set(typeString)\<close> skips \<^verbatim>\<open>None\<close> and the empty string.
\<close>

definition FolJntType_init :: "string option \<Rightarrow> error + FolJntType" where
  "FolJntType_init ts =
     (let self = \<lparr>p_name = None, p_typeString = None, controlNode = None\<rparr>
      in (case ts of
            None \<Rightarrow> Inr self
          | Some s \<Rightarrow> (if s \<noteq> [] then FolJntType_set self s else Inr self)))"

text \<open>
  One row of the table of section 4.2 of the specification, read off a descriptor:
  hasTransform, hasJoint, topTransform, follicleParent and the control node.
\<close>

definition tableRow :: "FolJntType \<Rightarrow>
    (error + bool) \<times> (error + bool) \<times> (error + string) \<times> (error + string) \<times> string option" where
  "tableRow d = (hasTransform d, hasJoint d, topTransform d, follicleParent d, controlNode d)"


section \<open>Surface utilities and grid placement\<close>

text \<open>
  A patch is a shape node of the host scene: its node type and, for a NURBS surface,
  the parameter range read from \<^verbatim>\<open>minValueU\<close>, \<^verbatim>\<open>maxValueU\<close>, \<^verbatim>\<open>minValueV\<close> and
  \<^verbatim>\<open>maxValueV\<close>. Python floats are taken as real numbers throughout.
\<close>

record patch =
  patchNode :: string
  patchType :: string
  minValueU :: real
  maxValueU :: real
  minValueV :: real
  maxValueV :: real

text \<open>
  \<^verbatim>\<open>pm.objectType(patch, i='nurbsSurface')\<close>.
\<close>

definition patchIsNurb :: "patch \<Rightarrow> bool" where
  "patchIsNurb p = (patchType p = ''nurbsSurface'')"

text \<open>
  \<^verbatim>\<open>normalisedNurbsUV\<close>. The uv argument is a list: \<^verbatim>\<open>uv[0]\<close> and \<^verbatim>\<open>uv[1]\<close> raise
  IndexError on a list that is too short, and the float division raises
  ZeroDivisionError on a range of length zero. The two \<^verbatim>\<open>print\<close> statements have no
  effect on the result and are left out, which leaves \<^verbatim>\<open>giveWarning\<close> unused.
\<close>

definition normalisedNurbsUV :: "patch \<Rightarrow> real list \<Rightarrow> bool \<Rightarrow> bool \<Rightarrow> error + real list" where
  "normalisedNurbsUV p uv giveWarning warningOnly =
     (if patchIsNurb p then
        (let minU = minValueU p; maxU = maxValueU p; minV = minValueV p; maxV = maxValueV p
         in if \<not> (minU = 0 \<and> maxU = 1 \<and> minV = 0 \<and> maxV = 1) \<and> \<not> warningOnly then
              (let uLength = maxU - minU; vLength = maxV - minV
               in (case uv of
                     [] \<Rightarrow> Inl (IndexError ''list index out of range'')
                   | u # rest \<Rightarrow>
                       (if uLength = 0 then Inl (ZeroDivisionError ''float division by zero'')
                        else (case rest of
                                [] \<Rightarrow> Inl (IndexError ''list index out of range'')
                              | v # rest' \<Rightarrow>
                                  (if vLength = 0
                                   then Inl (ZeroDivisionError ''float division by zero'')
                                   else Inr ((u / uLength + minU) # (v / vLength + minV) # rest'))))))
            else Inr uv)
      else Inl (StandardError ''Patch must be a nurbSurface shape PyNode!''))"

text \<open>
  What the grid observes of \<^verbatim>\<open>FollicleJoint.new\<close>: the patch the unit is built on and
  the parameter pair written to its control node. \<^verbatim>\<open>new\<close> copies the uv list, passes
  it through \<^verbatim>\<open>normalisedNurbsUV\<close> with \<^verbatim>\<open>warningOnly = not normaliseUV\<close> when the
  patch is a NURBS surface, and sets \<^verbatim>\<open>parameterU\<close> and \<^verbatim>\<open>parameterV\<close> from the first
  two entries. The nodes, their wiring and their names are not part of this model.
\<close>

record createdUnit =
  unitPatch :: patch
  unitU :: real
  unitV :: real

definition FollicleJoint_new :: "patch \<Rightarrow> real list \<Rightarrow> bool \<Rightarrow> bool \<Rightarrow> error + createdUnit" where
  "FollicleJoint_new p uv normaliseUV warnNormalised =
     (case (if patchIsNurb p then normalisedNurbsUV p uv warnNormalised (\<not> normaliseUV)
            else Inr uv) of
        Inl e \<Rightarrow> Inl e
      | Inr selfUV \<Rightarrow>
          (case selfUV of
             u # v # rest \<Rightarrow> Inr \<lparr>unitPatch = p, unitU = u, unitV = v\<rparr>
           | _ \<Rightarrow> Inl (IndexError ''list index out of range'')))"

text \<open>
  \<^verbatim>\<open>range(n)\<close> is empty for \<open>n \<le> 0\<close>.
\<close>

definition py_range :: "int \<Rightarrow> int list" where
  "py_range n = map int [0..<nat n]"

text \<open>
  The inner \<^verbatim>\<open>for j in range(uvRows[1])\<close> and the outer \<^verbatim>\<open>for i in range(uvRows[0])\<close>
  of \<^verbatim>\<open>newFollicleGrid\<close>, appending to \<^verbatim>\<open>newFols\<close>; a failing creation ends the call.
\<close>

fun gridColumn :: "patch \<Rightarrow> real \<Rightarrow> int \<Rightarrow> int \<Rightarrow> real \<Rightarrow> real \<Rightarrow> int list
    \<Rightarrow> createdUnit list \<Rightarrow> error + createdUnit list" where
  "gridColumn p u rowsV edgeV loV hiV [] newFols = Inr newFols"
| "gridColumn p u rowsV edgeV loV hiV (j # js) newFols =
     (let normV = (real_of_int j + real_of_int (1 - edgeV) / 2) / real_of_int (rowsV - edgeV);
          v = loV + normV * (hiV - loV)
      in (case FollicleJoint_new p [u, v] False False of
            Inl e \<Rightarrow> Inl e
          | Inr newObj \<Rightarrow> gridColumn p u rowsV edgeV loV hiV js (newFols @ [newObj])))"

fun gridRows :: "patch \<Rightarrow> int \<times> int \<Rightarrow> int \<times> int \<Rightarrow> real \<times> real \<times> real \<times> real \<Rightarrow> int list
    \<Rightarrow> createdUnit list \<Rightarrow> error + createdUnit list" where
  "gridRows p uvRows edgeBounded uvRange [] newFols = Inr newFols"
| "gridRows p uvRows edgeBounded uvRange (i # is) newFols =
     (case uvRange of (loU, hiU, loV, hiV) \<Rightarrow>
        (let normU = (real_of_int i + real_of_int (1 - fst edgeBounded) / 2)
                       / real_of_int (fst uvRows - fst edgeBounded);
             u = loU + normU * (hiU - loU)
         in (case gridColumn p u (snd uvRows) (snd edgeBounded) loV hiV
                   (py_range (snd uvRows)) newFols of
               Inl e \<Rightarrow> Inl e
             | Inr newFols' \<Rightarrow> gridRows p uvRows edgeBounded uvRange is newFols')))"

text \<open>
  \<^verbatim>\<open>newFollicleGrid\<close>. The pairs \<^verbatim>\<open>uvRows\<close> and \<^verbatim>\<open>edgeBounded\<close> hold integers (the
  panel passes booleans, which are 0 and 1); \<^verbatim>\<open>uvRange\<close> holds four optional numbers,
  \<^verbatim>\<open>None\<close> standing for the default \<^verbatim>\<open>[0.0, 1.0, 0.0, 1.0]\<close>. \<^verbatim>\<open>patchTest\<close> is the
  outcome of the shape query on the host scene: an error, or the first shape found, which
  is falsy when the node does not exist. The warning printed for a surface that is not
  normalised and the final selection of the new control nodes are left out.
\<close>

definition newFollicleGrid :: "error + patch option \<Rightarrow> int \<times> int \<Rightarrow> int \<times> int
    \<Rightarrow> real option \<times> real option \<times> real option \<times> real option \<Rightarrow> error + createdUnit list" where
  "newFollicleGrid patchTest uvRows edgeBounded uvRange =
     (if fst uvRows - fst edgeBounded = 0 \<or> snd uvRows - snd edgeBounded = 0
      then Inl (StandardError ''Minimum 2 rows for edge-bounded rows!'')
      else (case patchTest of
              Inl e \<Rightarrow> Inl e
            | Inr None \<Rightarrow> Inl (StandardError ''No valid patch identified!'')
            | Inr (Some p) \<Rightarrow>
                (case uvRange of (r0, r1, r2, r3) \<Rightarrow>
                   gridRows p uvRows edgeBounded
                     (case_option 0 id r0, case_option 1 id r1, case_option 0 id r2, case_option 1 id r3)
                     (py_range (fst uvRows)) [])))"


section \<open>The reversible-call wrapper of the panel\<close>

text \<open>
  The host calls the wrapper makes, in the order made: \<^verbatim>\<open>pm.undoInfo(openChunk=True)\<close>,
  \<^verbatim>\<open>pm.undoInfo(closeChunk=True)\<close> and \<^verbatim>\<open>pm.mel.evalDeferred(command)\<close>. The wrapped
  function may add calls of its own to the same journal.
\<close>

datatype hostCall = OpenChunk | CloseChunk | EvalDeferred string | EngineCall string

text \<open>
  A raised exception: the name of its class, its \<^verbatim>\<open>args\<close> tuple (strings, or values
  of another type) and whether the class derives from \<^verbatim>\<open>Exception\<close>, which
  \<^verbatim>\<open>KeyboardInterrupt\<close> and \<^verbatim>\<open>SystemExit\<close> do not.
\<close>

datatype excArg = ArgStr string | ArgOther

record pyException =
  excName :: string
  excArgs :: "excArg list"
  excIsException :: bool

datatype outcome = Returned | Raised pyException

text \<open>
  The wrapper object: the wrapped function with the arguments bound at construction.
  The function receives positional and keyword arguments and the journal, and gives
  the journal back with how it ended.
\<close>

record 'a undoableCaller =
  uiFunction :: "'a list \<Rightarrow> (string \<rightharpoonup> 'a) \<Rightarrow> hostCall list \<Rightarrow> hostCall list \<times> outcome"
  presetArgs :: "'a list"
  presetKwargs :: "string \<rightharpoonup> 'a"
  noArgs :: bool

text \<open>
  \<^verbatim>\<open>'; '.join(excInst.args).replace('\n', ' ')\<close>: joining raises TypeError unless
  every argument is a string.
\<close>

fun argStrings :: "excArg list \<Rightarrow> string list option" where
  "argStrings [] = Some []"
| "argStrings (ArgStr s # as) = map_option ((#) s) (argStrings as)"
| "argStrings (ArgOther # as) = None"

fun joinWith :: "string \<Rightarrow> string list \<Rightarrow> string" where
  "joinWith sep [] = []"
| "joinWith sep [s] = s"
| "joinWith sep (s # t # ss) = s @ sep @ joinWith sep (t # ss)"

definition flattenArgs :: "excArg list \<Rightarrow> string option" where
  "flattenArgs as =
     map_option (\<lambda>ss. map (\<lambda>c. if c = CHR 0x0A then CHR '' '' else c) (joinWith ''; '' ss))
       (argStrings as)"

text \<open>
  The command \<^verbatim>\<open>r'error "%s: %s"' % (exc.__name__, description)\<close>.
\<close>

definition errorCommand :: "string \<Rightarrow> string \<Rightarrow> string" where
  "errorCommand name description = ''error '' @ [CHR 0x22] @ name @ '': '' @ description @ [CHR 0x22]"

definition joinTypeError :: pyException where
  "joinTypeError =
     \<lparr>excName = ''TypeError'', excArgs = [ArgStr ''sequence item: expected string''],
      excIsException = True\<rparr>"

text \<open>
  \<^verbatim>\<open>runUndoable\<close>. The \<^verbatim>\<open>except Exception\<close> clause records the exception and
  re-raises it; the \<^verbatim>\<open>finally\<close> clause closes the chunk, sends the deferred error
  command when an exception was recorded, and ends with \<^verbatim>\<open>return\<close>, which discards
  whatever exception is in flight. An exception raised inside the \<^verbatim>\<open>finally\<close> clause
  itself (the join of non-string arguments) leaves before that \<^verbatim>\<open>return\<close>.
\<close>

definition runUndoable :: "'a undoableCaller \<Rightarrow> 'a list \<Rightarrow> (string \<rightharpoonup> 'a) \<Rightarrow> hostCall list
    \<Rightarrow> hostCall list \<times> outcome" where
  "runUndoable self args kwargs journal =
     (let args1 = (if noArgs self then [] else args);
          args2 = (if presetArgs self \<noteq> [] then presetArgs self @ args1 else args1);
          kwargs2 = kwargs ++ presetKwargs self
      in (case uiFunction self args2 kwargs2 (journal @ [OpenChunk]) of
            (journal2, Returned) \<Rightarrow> (journal2 @ [CloseChunk], Returned)
          | (journal2, Raised e) \<Rightarrow>
              (if excIsException e then
                 (case flattenArgs (excArgs e) of
                    None \<Rightarrow> (journal2 @ [CloseChunk], Raised joinTypeError)
                  | Some description \<Rightarrow>
                      (journal2 @ [CloseChunk, EvalDeferred (errorCommand (excName e) description)],
                       Returned))
               else (journal2 @ [CloseChunk], Returned))))"

text \<open>
  The arguments the wrapped function is called with, and the host calls the wrapper adds
  after the wrapped function has ended.
\<close>

definition wrappedResult :: "'a undoableCaller \<Rightarrow> 'a list \<Rightarrow> (string \<rightharpoonup> 'a) \<Rightarrow> hostCall list
    \<Rightarrow> hostCall list \<times> outcome" where
  "wrappedResult self args kwargs journal =
     uiFunction self
       (if presetArgs self \<noteq> [] then presetArgs self @ (if noArgs self then [] else args)
        else (if noArgs self then [] else args))
       (kwargs ++ presetKwargs self) (journal @ [OpenChunk])"

definition cleanupCalls :: "'a undoableCaller \<Rightarrow> 'a list \<Rightarrow> (string \<rightharpoonup> 'a) \<Rightarrow> hostCall list
    \<Rightarrow> hostCall list" where
  "cleanupCalls self args kwargs journal =
     drop (length (fst (wrappedResult self args kwargs journal)))
       (fst (runUndoable self args kwargs journal))"


section \<open>The host scene and the rigging unit\<close>

text \<open>
  Nodes are known by name, and a plug is a node with the short name of one of its
  attributes. The scene holds what the engine reads and writes: the type of each node, the
  current value of each numeric attribute that exists (as the host evaluates it), the
  locked plugs, and the connections as (source, destination) pairs. Writing a plug changes
  the stored value of that plug alone; how the host re-evaluates plugs downstream of it
  is not part of the model.
\<close>

type_synonym node = string
type_synonym plug = "node \<times> string"

record scene =
  nodeType :: "node \<rightharpoonup> string"
  attrValue :: "plug \<rightharpoonup> real"
  attrLocked :: "plug set"
  connections :: "(plug \<times> plug) list"

text \<open>
  \<^verbatim>\<open>pm.attributeQuery(attr, n=node, ex=1)\<close>.
\<close>

definition hasAttr :: "scene \<Rightarrow> node \<Rightarrow> string \<Rightarrow> bool" where
  "hasAttr s n a = (attrValue s (n, a) \<noteq> None)"

text \<open>
  \<^verbatim>\<open>plug.get()\<close>; reaching for an attribute the node does not have raises
  AttributeError.
\<close>

definition getAttr :: "scene \<Rightarrow> plug \<Rightarrow> error + real" where
  "getAttr s p =
     (case attrValue s p of
        None \<Rightarrow> Inl (AttributeError ''node has no such attribute'')
      | Some v \<Rightarrow> Inr v)"

text \<open>
  \<^verbatim>\<open>plug.isFreeToChange()\<close>: the plug is neither locked nor the destination of a
  connection.
\<close>

definition isFreeToChange :: "scene \<Rightarrow> plug \<Rightarrow> bool" where
  "isFreeToChange s p = (attrValue s p \<noteq> None \<and> p \<notin> attrLocked s \<and> p \<notin> snd ` set (connections s))"

text \<open>
  \<^verbatim>\<open>plug.set(v)\<close>: the host refuses, with RuntimeError, to set a plug that is locked
  or connected.
\<close>

definition setAttr :: "scene \<Rightarrow> plug \<Rightarrow> real \<Rightarrow> error + scene" where
  "setAttr s p v =
     (if attrValue s p = None then Inl (AttributeError ''node has no such attribute'')
      else if \<not> isFreeToChange s p
      then Inl (RuntimeError ''setAttr: The attribute is locked or connected and cannot be modified.'')
      else Inr (s\<lparr>attrValue := (attrValue s)(p \<mapsto> v)\<rparr>))"

text \<open>
  The aggregate \<^verbatim>\<open>FollicleJoint\<close>: the constraint node \<^verbatim>\<open>fol\<close>, the optional
  transform and joint, the type descriptor, the cached \<^verbatim>\<open>_side\<close> and \<^verbatim>\<open>_patch\<close>, and
  the side prefixes. The cache \<^verbatim>\<open>_controlObj\<close> is left out: the fields it is computed
  from do not change in the operations below.
\<close>

record FollicleJoint =
  fol :: node
  xfm :: "node option"
  jnt :: "node option"
  ftype :: "FolJntType option"
  p_side :: "string option"
  p_patch :: "node option"
  sidePrefix :: "string list"

text \<open>
  The property \<^verbatim>\<open>controlObj\<close>: \<^verbatim>\<open>None\<close> without a type or a control-node tag,
  otherwise the entry of \<^verbatim>\<open>{'f': fol, 't': xfm, 'j': jnt}\<close> under the tag.
\<close>

definition controlObj :: "FollicleJoint \<Rightarrow> error + node option" where
  "controlObj self =
     (case ftype self of
        None \<Rightarrow> Inr None
      | Some t \<Rightarrow>
          (case controlNode t of
             None \<Rightarrow> Inr None
           | Some cn \<Rightarrow>
               (if cn = [] then Inr None
                else if cn = ''f'' then Inr (Some (fol self))
                else if cn = ''t'' then Inr (xfm self)
                else if cn = ''j'' then Inr (jnt self)
                else Inl (KeyError cn))))"

subsection \<open>freeze\<close>

text \<open>
  \<^verbatim>\<open>self.controlObj.ou.get() != 0 or self.controlObj.ov.get() != 0\<close>: the second
  offset is read only when the first is zero.
\<close>

definition offsetsNonZero :: "scene \<Rightarrow> node \<Rightarrow> error + bool" where
  "offsetsNonZero s c =
     (case getAttr s (c, ''ou'') of
        Inl e \<Rightarrow> Inl e
      | Inr ou \<Rightarrow>
          (if ou \<noteq> 0 then Inr True
           else (case getAttr s (c, ''ov'') of
                   Inl e \<Rightarrow> Inl e
                 | Inr ov \<Rightarrow> Inr (ov \<noteq> 0))))"

text \<open>
  The \<^verbatim>\<open>except RuntimeError\<close> clause around the two offset writes turns the host's
  refusal into the StandardError of \<^verbatim>\<open>freeze\<close>; other exceptions pass through.
\<close>

definition freezeError :: "error \<Rightarrow> error" where
  "freezeError e =
     (case e of
        RuntimeError m \<Rightarrow>
          StandardError ''Offsets on '%s' were not able to be frozen due to connections or locked attributes!''
      | _ \<Rightarrow> e)"

text \<open>
  \<^verbatim>\<open>freeze\<close>: the outcome (\<open>True\<close> when the offsets were frozen, \<open>False\<close> for the
  \<^verbatim>\<open>None\<close> of the two skipped branches, or the exception) together with the scene as
  the call leaves it. A control object of \<^verbatim>\<open>None\<close> reaches the attribute query, which
  rejects it.
\<close>

definition freeze :: "FollicleJoint \<Rightarrow> scene \<Rightarrow> (error + bool) \<times> scene" where
  "freeze self s =
     (case controlObj self of
        Inl e \<Rightarrow> (Inl e, s)
      | Inr None \<Rightarrow> (Inl (TypeError ''attributeQuery: invalid node argument''), s)
      | Inr (Some c) \<Rightarrow>
          (if c \<noteq> fol self \<and> hasAttr s c ''pu'' then
             (case offsetsNonZero s c of
                Inl e \<Rightarrow> (Inl e, s)
              | Inr False \<Rightarrow> (Inr False, s)
              | Inr True \<Rightarrow>
                  (case getAttr s (fol self, ''pu'') of
                     Inl e \<Rightarrow> (Inl e, s)
                   | Inr endU \<Rightarrow>
                  (case getAttr s (fol self, ''pv'') of
                     Inl e \<Rightarrow> (Inl e, s)
                   | Inr endV \<Rightarrow>
                  (case setAttr s (c, ''ou'') 0 of
                     Inl e \<Rightarrow> (Inl (freezeError e), s)
                   | Inr s1 \<Rightarrow>
                  (case setAttr s1 (c, ''ov'') 0 of
                     Inl e \<Rightarrow> (Inl (freezeError e), s1)
                   | Inr s2 \<Rightarrow>
                  (case setAttr s2 (c, ''pu'') endU of
                     Inl e \<Rightarrow> (Inl e, s2)
                   | Inr s3 \<Rightarrow>
                  (case setAttr s3 (c, ''pv'') endV of
                     Inl e \<Rightarrow> (Inl e, s3)
                   | Inr s4 \<Rightarrow> (Inr True, s4))))))))
           else (Inr False, s)))"


subsection \<open>Side designation and the mirror unit\<close>

text \<open>
  Sequencing of fallible steps: the first exception ends the computation.
\<close>

definition bindE :: "error + 'a \<Rightarrow> ('a \<Rightarrow> error + 'b) \<Rightarrow> error + 'b" where
  "bindE r f = (case r of Inl e \<Rightarrow> Inl e | Inr x \<Rightarrow> f x)"

text \<open>
  \<^verbatim>\<open>s.replace(old, new)\<close>: every occurrence, left to right without overlap; the
  counter skips the characters of an occurrence just replaced. An empty \<^verbatim>\<open>old\<close> puts
  \<^verbatim>\<open>new\<close> before every character and at the end.
\<close>

fun replaceFrom :: "string \<Rightarrow> string \<Rightarrow> nat \<Rightarrow> string \<Rightarrow> string" where
  "replaceFrom old new skip [] = []"
| "replaceFrom old new skip (c # cs) =
     (if skip > 0 then replaceFrom old new (skip - 1) cs
      else if take (length old) (c # cs) = old
      then new @ replaceFrom old new (length old - 1) cs
      else c # replaceFrom old new 0 cs)"

definition py_replace :: "string \<Rightarrow> string \<Rightarrow> string \<Rightarrow> string" where
  "py_replace s old new =
     (if old = [] then new @ concat (map (\<lambda>c. c # new) s) else replaceFrom old new 0 s)"

definition startswith :: "string \<Rightarrow> string \<Rightarrow> bool" where
  "startswith s p = (take (length p) s = p)"

definition sideChars :: "string list" where
  "sideChars = [''l'', ''r'', ''m'']"

text \<open>
  The property \<^verbatim>\<open>nameObj\<close>: the transform or the joint, by the type's top transform;
  a node's name is the node.
\<close>

definition nameObj :: "FollicleJoint \<Rightarrow> error + node option" where
  "nameObj self =
     (case ftype self of
        None \<Rightarrow> Inr None
      | Some t \<Rightarrow>
          (case topTransform t of
             Inl e \<Rightarrow> Inl e
           | Inr tt \<Rightarrow> (if tt = ''t'' then Inr (xfm self) else Inr (jnt self))))"

text \<open>
  The \<^verbatim>\<open>for\<close> loop of the property \<^verbatim>\<open>side\<close> over the side prefixes, with its
  \<^verbatim>\<open>else\<close> branch for the middle.
\<close>

fun sideLoop :: "string \<Rightarrow> string list \<Rightarrow> nat \<Rightarrow> error + string" where
  "sideLoop nameStr [] i = Inr (sideChars ! 2)"
| "sideLoop nameStr (p # ps) i =
     (if startswith nameStr p
      then (if i < length sideChars then Inr (sideChars ! i)
            else Inl (IndexError ''list index out of range''))
      else sideLoop nameStr ps (Suc i))"

definition side :: "FollicleJoint \<Rightarrow> error + string option" where
  "side self =
     (if p_side self \<noteq> None \<and> p_side self \<noteq> Some [] then Inr (p_side self)
      else (case nameObj self of
              Inl e \<Rightarrow> Inl e
            | Inr no \<Rightarrow>
                (let nameStr = (if no \<noteq> None \<and> no \<noteq> Some [] then the no else fol self)
                 in if nameStr = [] then Inr None
                    else map_sum id Some (sideLoop nameStr (sidePrefix self) 0))))"

definition isSide :: "FollicleJoint \<Rightarrow> error + bool option" where
  "isSide self =
     (case side self of
        Inl e \<Rightarrow> Inl e
      | Inr None \<Rightarrow> Inr None
      | Inr (Some sd) \<Rightarrow> Inr (Some (sd \<in> set (take 2 sideChars))))"

text \<open>
  \<^verbatim>\<open>getMirrorObject(strict)\<close>. \<^verbatim>\<open>findUnit\<close> stands for the host and the discovery:
  \<open>None\<close> when no object of that name exists, otherwise the outcome of constructing a
  \<^verbatim>\<open>FollicleJoint\<close> from the name. The \<^verbatim>\<open>None\<close> and \<^verbatim>\<open>False\<close> of the non-strict
  paths are both \<open>None\<close> here.
\<close>

definition mirrorByName :: "FollicleJoint \<Rightarrow> (string \<Rightarrow> (error + FollicleJoint) option) \<Rightarrow> bool \<Rightarrow> nat
    \<Rightarrow> error + FollicleJoint option" where
  "mirrorByName self findUnit strict lrIndex =
     (case nameObj self of
        Inl e \<Rightarrow> Inl e
      | Inr None \<Rightarrow> Inl (AttributeError ''NoneType object has no attribute name'')
      | Inr (Some n) \<Rightarrow>
          (if lrIndex < length (sidePrefix self) \<and> 1 - lrIndex < length (sidePrefix self) then
             (case findUnit (py_replace n (sidePrefix self ! lrIndex) (sidePrefix self ! (1 - lrIndex))) of
                None \<Rightarrow> (if strict then Inl (StandardError ''No Mirror object found by the name %s!'')
                          else Inr None)
              | Some (Inl e) \<Rightarrow> Inl e
              | Some (Inr m) \<Rightarrow> Inr (Some m))
           else Inl (IndexError ''list index out of range'')))"

definition getMirrorObject :: "FollicleJoint \<Rightarrow> (string \<Rightarrow> (error + FollicleJoint) option) \<Rightarrow> bool
    \<Rightarrow> error + FollicleJoint option" where
  "getMirrorObject self findUnit strict =
     (case side self of
        Inl e \<Rightarrow> Inl e
      | Inr sd \<Rightarrow>
          (if sd = Some (sideChars ! 0) then mirrorByName self findUnit strict 0
           else if sd = Some (sideChars ! 1) then mirrorByName self findUnit strict 1
           else if strict then Inl (StandardError ''Follicle is neither left nor right!'')
           else Inr None))"

subsection \<open>copyValuesToMirror\<close>

text \<open>
  The keyword arguments of \<^verbatim>\<open>copyValuesToMirror\<close>; \<^verbatim>\<open>warnings\<close> only switches
  messages and is left out.
\<close>

record mirrorOptions =
  baseValues :: bool
  offsets :: bool
  axis :: string
  midVal :: real
  uvRange :: "real \<times> real"
  strict :: bool
  opposingOffsets :: bool
  jntRadius :: bool
  uvDriverRatio :: bool
  drivenOffsetRatios :: bool

text \<open>
  What the call looks up in the host beyond attribute values: the mirror unit by name,
  and the values of the properties \<^verbatim>\<open>_driverRatioNodes\<close> (a pair of optional scale
  nodes, or \<^verbatim>\<open>None\<close>) and \<^verbatim>\<open>_linkRatioAttrs\<close> (a pair of plug lists, or \<^verbatim>\<open>None\<close>)
  of the unit and of its mirror, read only when their category is selected.
\<close>

record mirrorLookups =
  findUnit :: "string \<Rightarrow> (error + FollicleJoint) option"
  uvDrivNodes :: "(node option \<times> node option) option"
  mirDrivNodes :: "(node option \<times> node option) option"
  uvLinkNodes :: "(plug list \<times> plug list) option"
  mirLinkNodes :: "(plug list \<times> plug list) option"

text \<open>
  An entry of \<^verbatim>\<open>toFromAttrs\<close>: destination, source, the index compared with the
  mirror axis and, for the base parameters only, the midpoint and the clamping range.
\<close>

record copyItem =
  toAttr :: plug
  fromAttr :: plug
  uvIndex :: nat
  mirrorSpec :: "(real \<times> real \<times> real) option"

text \<open>
  \<^verbatim>\<open>obj.attr\<close> on the value of a property that may have raised or be \<^verbatim>\<open>None\<close>.
\<close>

definition attrOf :: "scene \<Rightarrow> error + node option \<Rightarrow> string \<Rightarrow> error + plug" where
  "attrOf s obj a =
     (case obj of
        Inl e \<Rightarrow> Inl e
      | Inr None \<Rightarrow> Inl (AttributeError ''NoneType object has no such attribute'')
      | Inr (Some n) \<Rightarrow>
          (if hasAttr s n a then Inr (n, a) else Inl (AttributeError ''node has no such attribute'')))"

definition uvDriverAttrs :: "FollicleJoint \<Rightarrow> scene \<Rightarrow> error + bool" where
  "uvDriverAttrs self s =
     (case controlObj self of
        Inl e \<Rightarrow> Inl e
      | Inr None \<Rightarrow> Inr False
      | Inr (Some c) \<Rightarrow> Inr (hasAttr s c ''ou'' \<and> hasAttr s c ''ov''))"

definition copyPair :: "scene \<Rightarrow> error + node option \<Rightarrow> error + node option \<Rightarrow> string \<Rightarrow> nat
    \<Rightarrow> (real \<times> real \<times> real) option \<Rightarrow> error + copyItem" where
  "copyPair s toObj fromObj a k spec =
     bindE (attrOf s toObj a) (\<lambda>t.
     bindE (attrOf s fromObj a) (\<lambda>f.
       Inr \<lparr>toAttr = t, fromAttr = f, uvIndex = k, mirrorSpec = spec\<rparr>))"

definition baseItems :: "FollicleJoint \<Rightarrow> node option \<Rightarrow> mirrorOptions \<Rightarrow> scene \<Rightarrow> error + copyItem list" where
  "baseItems self mirCtrl opts s =
     (if baseValues opts then
        bindE (copyPair s (Inr mirCtrl) (controlObj self) ''pu'' 0
                 (Some (midVal opts, uvRange opts))) (\<lambda>u.
        bindE (copyPair s (Inr mirCtrl) (controlObj self) ''pv'' 1
                 (Some (midVal opts, uvRange opts))) (\<lambda>v. Inr [u, v]))
      else Inr [])"

definition offsetItems :: "FollicleJoint \<Rightarrow> FollicleJoint \<Rightarrow> node option \<Rightarrow> mirrorOptions \<Rightarrow> scene
    \<Rightarrow> error + copyItem list" where
  "offsetItems self mirrorObj mirCtrl opts s =
     (if offsets opts then
        bindE (uvDriverAttrs self s) (\<lambda>mine.
          if mine then
            bindE (uvDriverAttrs mirrorObj s) (\<lambda>theirs.
              if theirs then
                bindE (copyPair s (Inr mirCtrl) (controlObj self) ''ou''
                         (if opposingOffsets opts then 2 else 0) None) (\<lambda>u.
                bindE (copyPair s (Inr mirCtrl) (controlObj self) ''ov''
                         (if opposingOffsets opts then 2 else 1) None) (\<lambda>v. Inr [u, v]))
              else Inr [])
          else Inr [])
      else Inr [])"

definition radiusItems :: "FollicleJoint \<Rightarrow> FollicleJoint \<Rightarrow> mirrorOptions \<Rightarrow> scene \<Rightarrow> error + copyItem list" where
  "radiusItems self mirrorObj opts s =
     (if jntRadius opts \<and> jnt self \<noteq> None \<and> jnt mirrorObj \<noteq> None then
        bindE (copyPair s (Inr (jnt mirrorObj)) (Inr (jnt self)) ''radius'' 2 None) (\<lambda>r. Inr [r])
      else Inr [])"

definition ratioItem :: "node option \<Rightarrow> node option \<Rightarrow> nat \<Rightarrow> mirrorOptions \<Rightarrow> scene \<Rightarrow> error + copyItem list" where
  "ratioItem mirNode uvNode i opts s =
     (if uvNode \<noteq> None \<and> mirNode \<noteq> None then
        bindE (copyPair s (Inr mirNode) (Inr uvNode) ''i2''
                 (if opposingOffsets opts then i else 2) None) (\<lambda>r. Inr [r])
      else Inr [])"

definition driverRatioItems :: "mirrorLookups \<Rightarrow> mirrorOptions \<Rightarrow> scene \<Rightarrow> error + copyItem list" where
  "driverRatioItems look opts s =
     (if uvDriverRatio opts then
        (case (uvDrivNodes look, mirDrivNodes look) of
           (Some (u0, u1), Some (m0, m1)) \<Rightarrow>
             bindE (ratioItem m0 u0 0 opts s) (\<lambda>a.
             bindE (ratioItem m1 u1 1 opts s) (\<lambda>b. Inr (a @ b)))
         | _ \<Rightarrow> Inr [])
      else Inr [])"

text \<open>
  The pairs of link plugs, position by position up to the shorter list; a plug counts as
  true when it exists.
\<close>

definition linkPairs :: "scene \<Rightarrow> plug list \<Rightarrow> plug list \<Rightarrow> copyItem list" where
  "linkPairs s mirLinks uvLinks =
     map (\<lambda>(m, u). \<lparr>toAttr = m, fromAttr = u, uvIndex = 2, mirrorSpec = None\<rparr>)
       (filter (\<lambda>(m, u). attrValue s u \<noteq> None \<and> attrValue s m \<noteq> None) (zip mirLinks uvLinks))"

definition linkItems :: "mirrorLookups \<Rightarrow> mirrorOptions \<Rightarrow> scene \<Rightarrow> copyItem list" where
  "linkItems look opts s =
     (if drivenOffsetRatios opts then
        (case (uvLinkNodes look, mirLinkNodes look) of
           (Some (u0, u1), Some (m0, m1)) \<Rightarrow> linkPairs s m0 u0 @ linkPairs s m1 u1
         | _ \<Rightarrow> [])
      else [])"

definition toFromAttrs :: "FollicleJoint \<Rightarrow> FollicleJoint \<Rightarrow> node option \<Rightarrow> mirrorLookups \<Rightarrow> mirrorOptions
    \<Rightarrow> scene \<Rightarrow> error + copyItem list" where
  "toFromAttrs self mirrorObj mirCtrl look opts s =
     bindE (baseItems self mirCtrl opts s) (\<lambda>base.
     bindE (offsetItems self mirrorObj mirCtrl opts s) (\<lambda>offs.
     bindE (radiusItems self mirrorObj opts s) (\<lambda>radius.
     bindE (driverRatioItems look opts s) (\<lambda>ratios.
       Inr (base @ offs @ radius @ ratios @ linkItems look opts s)))))"

text \<open>
  The value written for one entry: reflected about the midpoint (0 when none is given)
  when the entry's index is the mirror axis, then clamped when a range is given.
\<close>

definition mirroredValue :: "nat \<Rightarrow> copyItem \<Rightarrow> real \<Rightarrow> real" where
  "mirroredValue axisVal it val =
     (let midValTmp = (case mirrorSpec it of None \<Rightarrow> 0 | Some (mid, lo, hi) \<Rightarrow> mid);
          val1 = (if uvIndex it = axisVal then 2 * midValTmp - val else val)
      in (case mirrorSpec it of
            None \<Rightarrow> val1
          | Some (mid, minVal, maxVal) \<Rightarrow> min (max val1 minVal) maxVal))"

text \<open>
  The loop \<^verbatim>\<open>for toFromAttr in toFromAttrs\<close>: a destination that is locked or
  connected is skipped.
\<close>

fun setValues :: "nat \<Rightarrow> copyItem list \<Rightarrow> scene \<Rightarrow> error option \<times> scene" where
  "setValues axisVal [] s = (None, s)"
| "setValues axisVal (it # its) s =
     (if isFreeToChange s (toAttr it) then
        (case getAttr s (fromAttr it) of
           Inl e \<Rightarrow> (Some e, s)
         | Inr val \<Rightarrow>
             (case setAttr s (toAttr it) (mirroredValue axisVal it val) of
                Inl e \<Rightarrow> (Some e, s)
              | Inr s1 \<Rightarrow> setValues axisVal its s1))
      else setValues axisVal its s)"

definition axisValOf :: "string \<Rightarrow> nat" where
  "axisValOf ax = (if ax = ''v'' then 1 else 0)"

text \<open>
  The part of \<^verbatim>\<open>copyValuesToMirror\<close> after the mirror unit has been found.
\<close>

definition writeMirrorValues :: "FollicleJoint \<Rightarrow> FollicleJoint \<Rightarrow> mirrorLookups \<Rightarrow> mirrorOptions \<Rightarrow> scene
    \<Rightarrow> error option \<times> scene" where
  "writeMirrorValues self mirrorObj look opts s =
     (case controlObj mirrorObj of
        Inl e \<Rightarrow> (Some e, s)
      | Inr mirCtrl \<Rightarrow>
          (case toFromAttrs self mirrorObj mirCtrl look opts s of
             Inl e \<Rightarrow> (Some e, s)
           | Inr items \<Rightarrow> setValues (axisValOf (axis opts)) items s))"

definition copyValuesToMirror :: "FollicleJoint \<Rightarrow> mirrorLookups \<Rightarrow> mirrorOptions \<Rightarrow> scene
    \<Rightarrow> (error + FollicleJoint option) \<times> scene" where
  "copyValuesToMirror self look opts s =
     (case isSide self of
        Inl e \<Rightarrow> (Inl e, s)
      | Inr sd \<Rightarrow>
          (if sd \<noteq> Some True then
             (if strict opts then (Inl (StandardError ''Follicle is neither left nor right!''), s)
              else (Inr None, s))
           else
             (case getMirrorObject self (findUnit look) (strict opts) of
                Inl e \<Rightarrow> (Inl e, s)
              | Inr None \<Rightarrow> (Inl (AttributeError ''object has no attribute controlObj''), s)
              | Inr (Some mirrorObj) \<Rightarrow>
                  (case writeMirrorValues self mirrorObj look opts s of
                     (Some e, s') \<Rightarrow> (Inl e, s')
                   | (None, s') \<Rightarrow> (Inr (Some mirrorObj), s')))))"

text \<open>
  The plugs of the mirror unit that the chained driven-offset ratios may write.
\<close>

definition linkDestinations :: "mirrorLookups \<Rightarrow> plug list" where
  "linkDestinations look = (case mirLinkNodes look of None \<Rightarrow> [] | Some (m0, m1) \<Rightarrow> m0 @ m1)"

subsection \<open>transferToPatch\<close>

text \<open>
  \<^verbatim>\<open>plug.inputs(p=1)\<close>: the source plugs connected into a plug.
\<close>

definition inputsOf :: "scene \<Rightarrow> plug \<Rightarrow> plug list" where
  "inputsOf s dst = map fst (filter (\<lambda>conn. snd conn = dst) (connections s))"

text \<open>
  The property \<^verbatim>\<open>patch\<close>: the cached node, else the first NURBS surface feeding
  \<^verbatim>\<open>inputSurface\<close>, else the first mesh feeding \<^verbatim>\<open>inputMesh\<close>, else \<^verbatim>\<open>False\<close>
  (here \<open>None\<close>). The assignment to the cache is not tracked.
\<close>

definition patchOf :: "FollicleJoint \<Rightarrow> scene \<Rightarrow> node option" where
  "patchOf self s =
     (case p_patch self of
        Some p \<Rightarrow> Some p
      | None \<Rightarrow>
          (case filter (\<lambda>n. nodeType s n = Some ''nurbsSurface'')
                  (map fst (inputsOf s (fol self, ''inputSurface''))) of
             n # ns \<Rightarrow> Some n
           | [] \<Rightarrow>
               (case filter (\<lambda>n. nodeType s n = Some ''mesh'')
                       (map fst (inputsOf s (fol self, ''inputMesh''))) of
                  m # ms \<Rightarrow> Some m
                | [] \<Rightarrow> None)))"

text \<open>
  \<^verbatim>\<open>disconnectFromPatch\<close>: every connection into the follicle whose source is a plug
  of the current patch is removed.
\<close>

definition disconnectFromPatch :: "FollicleJoint \<Rightarrow> scene \<Rightarrow> scene" where
  "disconnectFromPatch self s =
     (case patchOf self s of
        None \<Rightarrow> s
      | Some p \<Rightarrow>
          s\<lparr>connections :=
              filter (\<lambda>conn. \<not> (fst (snd conn) = fol self \<and> fst (fst conn) = p)) (connections s)\<rparr>)"

text \<open>
  \<^verbatim>\<open>pm.connectAttr(src, dst, f=1)\<close>: a connection already on the destination is
  replaced.
\<close>

definition connectAttrForce :: "scene \<Rightarrow> plug \<Rightarrow> plug \<Rightarrow> scene" where
  "connectAttrForce s src dst =
     s\<lparr>connections := filter (\<lambda>conn. snd conn \<noteq> dst) (connections s) @ [(src, dst)]\<rparr>"

text \<open>
  The closest-point branch after the disconnection: the offset between the follicle's
  live parameter and the control node's base parameter is taken off the new uv on each
  axis.
\<close>

definition writeRelocatedUV :: "FollicleJoint \<Rightarrow> real list \<Rightarrow> scene \<Rightarrow> (error + unit) \<times> scene" where
  "writeRelocatedUV self newUV s =
     (case controlObj self of
        Inl e \<Rightarrow> (Inl e, s)
      | Inr None \<Rightarrow> (Inl (AttributeError ''NoneType object has no attribute pu''), s)
      | Inr (Some uvObj) \<Rightarrow>
          (case getAttr s (fol self, ''pu'') of Inl e \<Rightarrow> (Inl e, s) | Inr folU \<Rightarrow>
          (case getAttr s (uvObj, ''pu'') of Inl e \<Rightarrow> (Inl e, s) | Inr baseU \<Rightarrow>
          (case getAttr s (fol self, ''pv'') of Inl e \<Rightarrow> (Inl e, s) | Inr folV \<Rightarrow>
          (case getAttr s (uvObj, ''pv'') of Inl e \<Rightarrow> (Inl e, s) | Inr baseV \<Rightarrow>
          (case newUV of
             [] \<Rightarrow> (Inl (IndexError ''list index out of range''), s)
           | u # rest \<Rightarrow>
               (case setAttr s (uvObj, ''pu'') (u - (folU - baseU)) of
                  Inl e \<Rightarrow> (Inl e, s)
                | Inr s1 \<Rightarrow>
                    (case rest of
                       [] \<Rightarrow> (Inl (IndexError ''list index out of range''), s1)
                     | v # rest' \<Rightarrow>
                         (case setAttr s1 (uvObj, ''pv'') (v - (folV - baseV)) of
                            Inl e \<Rightarrow> (Inl e, s1)
                          | Inr s2 \<Rightarrow> (Inr (), s2))))))))))"

text \<open>
  The reconnection from the new patch: world matrix, then the surface, the smoothed mesh
  or the base mesh.
\<close>

definition connectToPatch :: "FollicleJoint \<Rightarrow> patch \<Rightarrow> bool \<Rightarrow> scene \<Rightarrow> scene" where
  "connectToPatch self p useSmoothedMesh s =
     (let s1 = connectAttrForce s (patchNode p, ''worldMatrix[0]'') (fol self, ''inputWorldMatrix'')
      in if patchIsNurb p then connectAttrForce s1 (patchNode p, ''local'') (fol self, ''inputSurface'')
         else if useSmoothedMesh
         then connectAttrForce s1 (patchNode p, ''outSmoothMesh'') (fol self, ''inputMesh'')
         else connectAttrForce s1 (patchNode p, ''outMesh'') (fol self, ''inputMesh''))"

text \<open>
  \<^verbatim>\<open>transferToPatch\<close>. \<^verbatim>\<open>patchQuery\<close> is the outcome of the shape query for the new
  patch and \<^verbatim>\<open>closestUVs\<close> the outcome of \<^verbatim>\<open>getClosestUVs(patch, self.xfm, False)[0]\<close>,
  whose solver nodes are created and deleted again within that call. With \<^verbatim>\<open>closestPt\<close>
  set and no uv supplied, the source binds the lookup to \<^verbatim>\<open>outUVVals\<close> and then reads
  \<^verbatim>\<open>outVals[0]\<close>, a name bound neither in the function nor in the module.
\<close>

definition transferToPatch :: "FollicleJoint \<Rightarrow> error + patch \<Rightarrow> error + real list list
    \<Rightarrow> real list option \<Rightarrow> bool \<Rightarrow> bool \<Rightarrow> scene \<Rightarrow> (error + bool) \<times> scene" where
  "transferToPatch self patchQuery closestUVs newUV closestPt useSmoothedMesh s =
     (case patchQuery of
        Inl e \<Rightarrow> (Inl e, s)
      | Inr p \<Rightarrow>
          (if closestPt \<and> (newUV = None \<or> newUV = Some []) then
             (case closestUVs of
                Inl e \<Rightarrow> (Inl e, s)
              | Inr outUVVals \<Rightarrow> (Inl (NameError ''global name 'outVals' is not defined''), s))
           else
             (let s1 = disconnectFromPatch self s
              in if closestPt then
                   (case writeRelocatedUV self (case_option [] id newUV) s1 of
                      (Inl e, s2) \<Rightarrow> (Inl e, s2)
                    | (Inr u, s2) \<Rightarrow> (Inr True, connectToPatch self p useSmoothedMesh s2))
                 else (Inr True, connectToPatch self p useSmoothedMesh s1))))"


subsection \<open>A standard unit, for evaluation\<close>

text \<open>
  A unit of type \<^verbatim>\<open>t/f-j\<close> named \<^verbatim>\<open>L_brow1\<close>: the joint carries the base and offset
  parameters, the follicle shape holds the resolved ones.
\<close>

definition standardType :: FolJntType where
  "standardType = \<lparr>p_name = None, p_typeString = Some ''t/f-j'', controlNode = Some ''j''\<rparr>"

definition browUnit :: FollicleJoint where
  "browUnit =
     \<lparr>fol = ''L_brow1Shape'', xfm = Some ''L_brow1'', jnt = Some ''L_brow_J_1'',
      ftype = Some standardType, p_side = None, p_patch = None,
      sidePrefix = [''L_'', ''R_'', ''M_'']\<rparr>"

definition browValues :: "plug \<rightharpoonup> real" where
  "browValues =
     [(''L_brow_J_1'', ''pu'') \<mapsto> 1 / 5, (''L_brow_J_1'', ''pv'') \<mapsto> 1 / 2,
      (''L_brow_J_1'', ''ou'') \<mapsto> 1, (''L_brow_J_1'', ''ov'') \<mapsto> 2,
      (''L_brow1Shape'', ''pu'') \<mapsto> 3 / 10, (''L_brow1Shape'', ''pv'') \<mapsto> 7 / 10]"

text \<open>
  The follicle's parameters are driven by the sum nodes; the joint's attributes are free.
\<close>

definition browScene :: scene where
  "browScene =
     \<lparr>nodeType = [''L_brow1Shape'' \<mapsto> ''follicle'', ''L_brow1'' \<mapsto> ''transform'',
                  ''L_brow_J_1'' \<mapsto> ''joint''],
      attrValue = browValues,
      attrLocked = {},
      connections = [((''addU'', ''o''), (''L_brow1Shape'', ''pu'')),
                     ((''addV'', ''o''), (''L_brow1Shape'', ''pv''))]\<rparr>"

text \<open>
  The same unit after \<^verbatim>\<open>newFollicleAtClosestPt\<close> with \<^verbatim>\<open>keepCalcNodes\<close>: the
  closest-point solver stays connected to the base parameters of the joint.
\<close>

definition liveBrowScene :: scene where
  "liveBrowScene =
     browScene\<lparr>connections :=
       connections browScene @
         [((''cpt1'', ''u''), (''L_brow_J_1'', ''pu'')), ((''cpt1'', ''v''), (''L_brow_J_1'', ''pv''))]\<rparr>"


text \<open>
  The mirror of that unit, \<^verbatim>\<open>R_brow1\<close>, and a scene holding both; the lookup finds
  the mirror by its name. The scale nodes carry the driver ratio of each axis.
\<close>

definition mirrorBrowUnit :: FollicleJoint where
  "mirrorBrowUnit =
     \<lparr>fol = ''R_brow1Shape'', xfm = Some ''R_brow1'', jnt = Some ''R_brow_J_1'',
      ftype = Some standardType, p_side = None, p_patch = None,
      sidePrefix = [''L_'', ''R_'', ''M_'']\<rparr>"

definition pairScene :: scene where
  "pairScene =
     browScene\<lparr>attrValue := browValues
       ((''R_brow_J_1'', ''pu'') \<mapsto> 4 / 5, (''R_brow_J_1'', ''pv'') \<mapsto> 1 / 2,
        (''R_brow_J_1'', ''ou'') \<mapsto> 0, (''R_brow_J_1'', ''ov'') \<mapsto> 0)\<rparr>"

definition pairLookups :: mirrorLookups where
  "pairLookups =
     \<lparr>findUnit = (\<lambda>n. if n = ''R_brow1'' then Some (Inr mirrorBrowUnit) else None),
      uvDrivNodes = None, mirDrivNodes = None, uvLinkNodes = None, mirLinkNodes = None\<rparr>"

text \<open>
  Mirroring the offsets only, on the U axis, with and without opposing offsets.
\<close>

definition offsetsOnly :: "bool \<Rightarrow> mirrorOptions" where
  "offsetsOnly opposing =
     \<lparr>baseValues = False, offsets = True, axis = ''u'', midVal = 1 / 2, uvRange = (0, 1),
      strict = True, opposingOffsets = opposing, jntRadius = False, uvDriverRatio = False,
      drivenOffsetRatios = False\<rparr>"


section \<open>Verified properties\<close>

subsection \<open>The loop of splitNumberedName, phase by phase\<close>

lemma splitLoop_prefix_phase:
  "splitLoop fc cs (p, n, s) 0 dl = (rev cs @ p, n, s)"
  by (induction cs arbitrary: p dl) simp_all

lemma splitLoop_number_phase:
  "splitLoop fc cs (p, n, s) (Suc 0) True =
     (rev (dropWhile (\<lambda>c. c \<in> set fc) cs) @ p, rev (takeWhile (\<lambda>c. c \<in> set fc) cs) @ n, s)"
  by (induction cs arbitrary: n) (simp_all add: splitLoop_prefix_phase)

lemma splitLoop_suffix_phase:
  "splitLoop fc cs (p, n, s) 2 False =
     (let rest = dropWhile (\<lambda>c. c \<notin> set fc) cs
      in (rev (dropWhile (\<lambda>c. c \<in> set fc) rest) @ p,
          rev (takeWhile (\<lambda>c. c \<in> set fc) rest) @ n,
          rev (takeWhile (\<lambda>c. c \<notin> set fc) cs) @ s))"
  by (induction cs arbitrary: s) (simp_all add: splitLoop_number_phase Let_def)

lemma splitLoop_from_start:
  "splitLoop fc (rev name) ([], [], []) 2 False =
     (withoutTrailingRun (\<lambda>c. c \<in> set fc) (withoutTrailingRun (\<lambda>c. c \<notin> set fc) name),
      trailingRun (\<lambda>c. c \<in> set fc) (withoutTrailingRun (\<lambda>c. c \<notin> set fc) name),
      trailingRun (\<lambda>c. c \<notin> set fc) name)"
  by (simp add: splitLoop_suffix_phase Let_def trailingRun_def withoutTrailingRun_def)

lemma runs_rejoin:
  "withoutTrailingRun P name @ trailingRun P name = name"
proof -
  have "rev (takeWhile P (rev name) @ dropWhile P (rev name)) = name"
    by simp
  then show ?thesis
    unfolding trailingRun_def withoutTrailingRun_def by (simp only: rev_append)
qed

lemma splitNumberedName_is_splitSpec:
  "splitNumberedName name alt = splitSpec (findCharsOf alt) name"
  by (simp add: splitNumberedName_def splitSpec_def splitLoop_from_start Let_def)

text \<open>
  C8, the claim as stated, fails for an alternate character set that is given but empty:
  no character belongs to it, so the claim asks for the whole input as prefix, while
  \<^verbatim>\<open>if alternateFindChar:\<close> takes the empty string for no argument and splits at the
  digits.
\<close>

theorem splitNumberedName_empty_alternate_counterexample:
  "splitNumberedName ''a1b'' (Some '''') = (''a'', ''1'', ''b'')
   \<and> splitSpec '''' ''a1b'' = (''a1b'', '''', '''')
   \<and> splitNumberedName ''a1b'' (Some '''') \<noteq> splitSpec '''' ''a1b''"
proof -
  have code: "splitNumberedName ''a1b'' (Some '''') = (''a'', ''1'', ''b'')"
    by (simp add: splitNumberedName_is_splitSpec findCharsOf_def splitSpec_def trailingRun_def
          withoutTrailingRun_def string_digits_def)
  have claim: "splitSpec '''' ''a1b'' = (''a1b'', '''', '''')"
    by (simp add: splitSpec_def trailingRun_def withoutTrailingRun_def)
  show ?thesis
    by (simp add: code claim)
qed

text \<open>
  C8, amended: for every input string, splitNumberedName returns (prefix, number, suffix)
  with the number the last embedded run of characters of the set in force, the suffix
  the characters after that run and the prefix the remainder, and the whole input as
  prefix when no such run exists. The set in force is the digits 0123456789 when no
  alternate set is given or the one given is empty, and the alternate set when a
  non-empty one is given. "this45name" splits into ("this", "45", "name"), "noNumbers"
  into ("noNumbers", "", ""), and "a1#b2" with the alternate set "#" into
  ("a1", "#", "b2").
\<close>

theorem splitNumberedName_last_run:
  "splitNumberedName name None = splitSpec ''0123456789'' name
   \<and> (alt \<noteq> [] \<longrightarrow> splitNumberedName name (Some alt) = splitSpec alt name)
   \<and> splitNumberedName name (Some []) = splitSpec ''0123456789'' name
   \<and> splitNumberedName ''this45name'' None = (''this'', ''45'', ''name'')
   \<and> splitNumberedName ''noNumbers'' None = (''noNumbers'', '''', '''')
   \<and> splitNumberedName ''a1#b2'' (Some ''#'') = (''a1'', ''#'', ''b2'')"
proof -
  have a: "splitSpec string_digits ''this45name'' = (''this'', ''45'', ''name'')"
    by (simp add: splitSpec_def trailingRun_def withoutTrailingRun_def string_digits_def)
  have b: "splitSpec string_digits ''noNumbers'' = (''noNumbers'', '''', '''')"
    by (simp add: splitSpec_def trailingRun_def withoutTrailingRun_def string_digits_def)
  have c: "splitSpec ''#'' ''a1#b2'' = (''a1'', ''#'', ''b2'')"
    by (simp add: splitSpec_def trailingRun_def withoutTrailingRun_def)
  have d: "''0123456789'' = string_digits"
    by (simp add: string_digits_def)
  show ?thesis
    unfolding d using a b c by (simp add: splitNumberedName_is_splitSpec findCharsOf_def)
qed

theorem splitNumberedName_last_run_witness:
  "''_#'' \<noteq> [] \<and> splitNumberedName ''fol7_#_jnt'' (Some ''_#'') = (''fol7'', ''_#_'', ''jnt'')"
proof -
  have h: "''_#'' \<noteq> []" by simp
  have "splitSpec ''_#'' ''fol7_#_jnt'' = (''fol7'', ''_#_'', ''jnt'')"
    by (simp add: splitSpec_def trailingRun_def withoutTrailingRun_def)
  then show ?thesis
    using splitNumberedName_last_run [of "''fol7_#_jnt''" "''_#''"] h by simp
qed

text \<open>
  C10: for every input string and every character set, the triple returned by
  splitNumberedName concatenates back to the input: prefix + number + suffix = name.
\<close>

theorem splitNumberedName_concat:
  "(case splitNumberedName name alt of (prefix, number, suffix) \<Rightarrow> prefix @ number @ suffix) = name"
proof -
  let ?fc = "findCharsOf alt"
  let ?front = "withoutTrailingRun (\<lambda>c. c \<notin> set ?fc) name"
  have "withoutTrailingRun (\<lambda>c. c \<in> set ?fc) ?front @ trailingRun (\<lambda>c. c \<in> set ?fc) ?front
          @ trailingRun (\<lambda>c. c \<notin> set ?fc) name
        = ?front @ trailingRun (\<lambda>c. c \<notin> set ?fc) name"
    using runs_rejoin [of "\<lambda>c. c \<in> set ?fc" ?front] by (simp only: append_assoc [symmetric])
  also have "\<dots> = name"
    by (rule runs_rejoin)
  finally show ?thesis
    by (simp add: splitNumberedName_def splitLoop_from_start Let_def)
qed

subsection \<open>joinNumberedName\<close>

lemma replaceHash_empty: "replaceHash [] t = filter (\<lambda>c. c \<noteq> CHR ''#'') t"
  by (induction t) (simp_all add: replaceHash_def)

lemma py_format_default:
  "py_format [''pre'' \<mapsto> p, ''num'' \<mapsto> n, ''suf'' \<mapsto> s] None defaultNameFormat = Inr (p @ n @ s)"
  by (simp add: defaultNameFormat_def string_digits_def)

lemma py_format_joint:
  "py_format [''pre'' \<mapsto> p, ''num'' \<mapsto> n, ''suf'' \<mapsto> s] None ''{pre}_J_{num}{suf}''
     = Inr (p @ ''_J_'' @ n @ s)"
  by (simp add: string_digits_def)

lemma numStrOf_absent: "num = NumNone \<or> num = NumStr [] \<Longrightarrow> numStrOf num pad = Inr []"
  by (auto simp: numStrOf_def)

lemma numStrOf_formats:
  "num = NumNone \<or> num = NumStr [] \<or> num = NumInt n \<or> (num = NumStr s \<and> py_int s = Inr n)
     \<Longrightarrow> \<exists>numStr. numStrOf num pad = Inr numStr"
  by (auto simp: numStrOf_def)

lemma padNumber_23_3: "padNumber 23 3 = ''023''"
  by (simp add: padNumber_def intStr_def natStr.simps string_digits_def)

lemma padNumber_7_2: "padNumber 7 2 = ''07''"
  by (simp add: padNumber_def intStr_def natStr.simps string_digits_def)

lemma py_int_x: "py_int ''x'' = Inl (ValueError ''invalid literal for int() with base 10'')"
  by (simp add: py_int_def py_strip_def py_isspace_def string_digits_def)

text \<open>
  C9, the claim as stated, fails in its third part. An empty template holds no
  \<^verbatim>\<open>#\<close>, yet \<^verbatim>\<open>if nameDef:\<close> takes it for no template and the call returns the
  name formatted from prefix, number and suffix. And with a non-empty template without
  \<^verbatim>\<open>#\<close>, a number string that \<^verbatim>\<open>int()\<close> rejects ends the call with ValueError
  before the template is looked at.
\<close>

theorem joinNumberedName_template_counterexample:
  "CHR ''#'' \<notin> set ''''
   \<and> joinNumberedName (Some ''a'') (NumInt 7) (Some ''b'') 2 defaultNameFormat (Some '''')
       = Inr ''a07b''
   \<and> CHR ''#'' \<notin> set ''abc''
   \<and> joinNumberedName None (NumStr ''x'') None 0 defaultNameFormat (Some ''abc'')
       = Inl (ValueError ''invalid literal for int() with base 10'')"
  by (simp add: joinNumberedName_def numStrOf_def padNumber_7_2 py_int_x py_format_default
        orEmpty_def)

text \<open>
  C9, amended: joinNumberedName gives "pizza_023_order" for prefix "pizza_", number 23,
  suffix "_order" and padding 3, and for the template "pizza_#_order" with number 23 and
  padding 3. For every non-empty template without a \<^verbatim>\<open>#\<close> the call fails with the
  TypeError about the template whenever the number is None, empty, an integer or a
  string that int() accepts; a non-empty number string that int() rejects fails with
  int()'s ValueError, whatever the template. An empty template is no template: the call
  does what it does without one. For every call where the number is None or empty the
  number string is empty, so the number segment is left out: every \<^verbatim>\<open>#\<close> of a
  template is removed, the format is filled with an empty number, and the two formats
  of the source give prefix + suffix and prefix + "_J_" + suffix.
\<close>

theorem joinNumberedName_formats:
  "joinNumberedName (Some ''pizza_'') (NumInt 23) (Some ''_order'') 3 defaultNameFormat None
     = Inr ''pizza_023_order''
   \<and> joinNumberedName None (NumInt 23) None 3 defaultNameFormat (Some ''pizza_#_order'')
     = Inr ''pizza_023_order''
   \<and> (t \<noteq> [] \<and> CHR ''#'' \<notin> set t
        \<and> (num = NumNone \<or> num = NumStr [] \<or> num = NumInt n \<or> (num = NumStr s \<and> py_int s = Inr n))
      \<longrightarrow> joinNumberedName prefix num suffix pad fmt (Some t)
            = Inl (TypeError ''A nameTemplate must contain a # symbol for the number!''))
   \<and> (num = NumStr s \<and> s \<noteq> [] \<and> py_int s = Inl e
      \<longrightarrow> joinNumberedName prefix num suffix pad fmt nameDef = Inl e)
   \<and> joinNumberedName prefix num suffix pad fmt (Some [])
     = joinNumberedName prefix num suffix pad fmt None
   \<and> (num = NumNone \<or> num = NumStr []
      \<longrightarrow> (t \<noteq> [] \<and> CHR ''#'' \<in> set t
            \<longrightarrow> joinNumberedName prefix num suffix pad fmt (Some t)
                  = Inr (filter (\<lambda>c. c \<noteq> CHR ''#'') t))
          \<and> joinNumberedName prefix num suffix pad fmt None
              = py_format [''pre'' \<mapsto> (case prefix of None \<Rightarrow> [] | Some p \<Rightarrow> p),
                           ''num'' \<mapsto> [],
                           ''suf'' \<mapsto> (case suffix of None \<Rightarrow> [] | Some x \<Rightarrow> x)] None fmt
          \<and> joinNumberedName prefix num suffix pad ''{pre}{num}{suf}'' None
              = Inr ((case prefix of None \<Rightarrow> [] | Some p \<Rightarrow> p)
                     @ (case suffix of None \<Rightarrow> [] | Some x \<Rightarrow> x))
          \<and> joinNumberedName prefix num suffix pad ''{pre}_J_{num}{suf}'' None
              = Inr ((case prefix of None \<Rightarrow> [] | Some p \<Rightarrow> p) @ ''_J_''
                     @ (case suffix of None \<Rightarrow> [] | Some x \<Rightarrow> x)))"
proof (intro conjI impI)
  show "joinNumberedName (Some ''pizza_'') (NumInt 23) (Some ''_order'') 3 defaultNameFormat None
     = Inr ''pizza_023_order''"
    by (simp add: joinNumberedName_def numStrOf_def padNumber_23_3 py_format_default orEmpty_def)
  show "joinNumberedName None (NumInt 23) None 3 defaultNameFormat (Some ''pizza_#_order'')
     = Inr ''pizza_023_order''"
    by (simp add: joinNumberedName_def numStrOf_def padNumber_23_3 replaceHash_def orEmpty_def)
  show "joinNumberedName prefix num suffix pad fmt (Some [])
     = joinNumberedName prefix num suffix pad fmt None"
    by (simp add: joinNumberedName_def orEmpty_def split: sum.split)
next
  assume a: "t \<noteq> [] \<and> CHR ''#'' \<notin> set t
        \<and> (num = NumNone \<or> num = NumStr [] \<or> num = NumInt n \<or> (num = NumStr s \<and> py_int s = Inr n))"
  then obtain numStr where "numStrOf num pad = Inr numStr"
    using numStrOf_formats [of num n s pad] by blast
  with a show "joinNumberedName prefix num suffix pad fmt (Some t)
            = Inl (TypeError ''A nameTemplate must contain a # symbol for the number!'')"
    by (simp add: joinNumberedName_def orEmpty_def)
next
  assume "num = NumStr s \<and> s \<noteq> [] \<and> py_int s = Inl e"
  then show "joinNumberedName prefix num suffix pad fmt nameDef = Inl e"
    by (simp add: joinNumberedName_def numStrOf_def)
next
  assume n: "num = NumNone \<or> num = NumStr []" and "t \<noteq> [] \<and> CHR ''#'' \<in> set t"
  then show "joinNumberedName prefix num suffix pad fmt (Some t)
               = Inr (filter (\<lambda>c. c \<noteq> CHR ''#'') t)"
    by (simp add: joinNumberedName_def numStrOf_absent replaceHash_empty orEmpty_def)
next
  assume n: "num = NumNone \<or> num = NumStr []"
  have pre: "orEmpty prefix = (case prefix of None \<Rightarrow> [] | Some p \<Rightarrow> p)"
    and suf: "orEmpty suffix = (case suffix of None \<Rightarrow> [] | Some x \<Rightarrow> x)"
    by (simp_all add: orEmpty_def)
  have general: "joinNumberedName prefix num suffix pad f None
      = py_format [''pre'' \<mapsto> (case prefix of None \<Rightarrow> [] | Some p \<Rightarrow> p),
                   ''num'' \<mapsto> [],
                   ''suf'' \<mapsto> (case suffix of None \<Rightarrow> [] | Some x \<Rightarrow> x)] None f" for f
    unfolding joinNumberedName_def numStrOf_absent [OF n] pre [symmetric] suf [symmetric]
    by (simp add: orEmpty_def)
  show "joinNumberedName prefix num suffix pad fmt None
      = py_format [''pre'' \<mapsto> (case prefix of None \<Rightarrow> [] | Some p \<Rightarrow> p),
                   ''num'' \<mapsto> [],
                   ''suf'' \<mapsto> (case suffix of None \<Rightarrow> [] | Some x \<Rightarrow> x)] None fmt"
    by (rule general)
  show "joinNumberedName prefix num suffix pad ''{pre}{num}{suf}'' None
      = Inr ((case prefix of None \<Rightarrow> [] | Some p \<Rightarrow> p)
             @ (case suffix of None \<Rightarrow> [] | Some x \<Rightarrow> x))"
    unfolding general using py_format_default [of _ "[]"] by (simp add: defaultNameFormat_def)
  show "joinNumberedName prefix num suffix pad ''{pre}_J_{num}{suf}'' None
      = Inr ((case prefix of None \<Rightarrow> [] | Some p \<Rightarrow> p) @ ''_J_''
             @ (case suffix of None \<Rightarrow> [] | Some x \<Rightarrow> x))"
    unfolding general using py_format_joint [of _ "[]"] by simp
qed

theorem joinNumberedName_formats_witness:
  "joinNumberedName (Some ''pizza_'') (NumInt 23) (Some ''_order'') 3 defaultNameFormat (Some ''pizza_order'')
     = Inl (TypeError ''A nameTemplate must contain a # symbol for the number!'')
   \<and> joinNumberedName (Some ''pizza_'') (NumStr ''x'') (Some ''_order'') 3 defaultNameFormat (Some ''pizza_#_order'')
     = Inl (ValueError ''invalid literal for int() with base 10'')
   \<and> joinNumberedName (Some ''pizza_'') (NumStr []) (Some ''_order'') 3 defaultNameFormat (Some ''pizza_#_order'')
     = Inr ''pizza__order''
   \<and> joinNumberedName (Some ''pizza_'') NumNone (Some ''_order'') 3 ''{pre}{num}{suf}'' None
     = Inr ''pizza__order''
   \<and> joinNumberedName (Some ''pizza'') NumNone (Some ''_order'') 3 ''{pre}_J_{num}{suf}'' None
     = Inr ''pizza_J__order''"
proof -
  have a: "''pizza_order'' \<noteq> [] \<and> CHR ''#'' \<notin> set ''pizza_order''
      \<and> (NumInt 23 = NumNone \<or> NumInt 23 = NumStr [] \<or> NumInt 23 = NumInt 23
          \<or> (NumInt 23 = NumStr [] \<and> py_int [] = Inr 23))"
    by simp
  have first: "joinNumberedName (Some ''pizza_'') (NumInt 23) (Some ''_order'') 3 defaultNameFormat
      (Some ''pizza_order'')
     = Inl (TypeError ''A nameTemplate must contain a # symbol for the number!'')"
    using joinNumberedName_formats [where t = "''pizza_order''" and num = "NumInt 23" and n = 23
        and s = "[]" and prefix = "Some ''pizza_''" and suffix = "Some ''_order''" and pad = 3
        and fmt = defaultNameFormat and e = "ValueError []" and nameDef = None] a
    by blast
  have b: "NumStr ''x'' = NumStr ''x'' \<and> ''x'' \<noteq> []
      \<and> py_int ''x'' = Inl (ValueError ''invalid literal for int() with base 10'')"
    by (simp add: py_int_x)
  have second: "joinNumberedName (Some ''pizza_'') (NumStr ''x'') (Some ''_order'') 3 defaultNameFormat
      (Some ''pizza_#_order'')
     = Inl (ValueError ''invalid literal for int() with base 10'')"
    using joinNumberedName_formats [where t = "''pizza_order''" and num = "NumStr ''x''" and n = 23
        and s = "''x''" and prefix = "Some ''pizza_''" and suffix = "Some ''_order''" and pad = 3
        and fmt = defaultNameFormat and e = "ValueError ''invalid literal for int() with base 10''"
        and nameDef = "Some ''pizza_#_order''"] b
    by blast
  have c: "NumStr [] = NumNone \<or> NumStr [] = NumStr []" by simp
  have h: "''pizza_#_order'' \<noteq> [] \<and> CHR ''#'' \<in> set ''pizza_#_order''" by simp
  have "joinNumberedName (Some ''pizza_'') (NumStr []) (Some ''_order'') 3 defaultNameFormat
      (Some ''pizza_#_order'')
     = Inr (filter (\<lambda>c. c \<noteq> CHR ''#'') ''pizza_#_order'')"
    using joinNumberedName_formats [where t = "''pizza_#_order''" and num = "NumStr []" and n = 23
        and s = "[]" and prefix = "Some ''pizza_''" and suffix = "Some ''_order''" and pad = 3
        and fmt = defaultNameFormat and e = "ValueError []" and nameDef = None] c h
    by blast
  then have third: "joinNumberedName (Some ''pizza_'') (NumStr []) (Some ''_order'') 3 defaultNameFormat
      (Some ''pizza_#_order'') = Inr ''pizza__order''"
    by simp
  have d: "(NumNone :: numArg) = NumNone \<or> NumNone = NumStr []" by simp
  have "joinNumberedName (Some ''pizza_'') NumNone (Some ''_order'') 3 ''{pre}{num}{suf}'' None
     = Inr ((case Some ''pizza_'' of None \<Rightarrow> [] | Some p \<Rightarrow> p)
            @ (case Some ''_order'' of None \<Rightarrow> [] | Some x \<Rightarrow> x))"
    using joinNumberedName_formats [where t = "''pizza_#_order''" and num = NumNone and n = 23
        and s = "[]" and prefix = "Some ''pizza_''" and suffix = "Some ''_order''" and pad = 3
        and fmt = defaultNameFormat and e = "ValueError []" and nameDef = None] d
    by blast
  then have fourth: "joinNumberedName (Some ''pizza_'') NumNone (Some ''_order'') 3 ''{pre}{num}{suf}'' None
     = Inr ''pizza__order''"
    by simp
  have "joinNumberedName (Some ''pizza'') NumNone (Some ''_order'') 3 ''{pre}_J_{num}{suf}'' None
     = Inr ((case Some ''pizza'' of None \<Rightarrow> [] | Some p \<Rightarrow> p) @ ''_J_''
            @ (case Some ''_order'' of None \<Rightarrow> [] | Some x \<Rightarrow> x))"
    using joinNumberedName_formats [where t = "''pizza_#_order''" and num = NumNone and n = 23
        and s = "[]" and prefix = "Some ''pizza''" and suffix = "Some ''_order''" and pad = 3
        and fmt = defaultNameFormat and e = "ValueError []" and nameDef = None] d
    by blast
  then have fifth: "joinNumberedName (Some ''pizza'') NumNone (Some ''_order'') 3 ''{pre}_J_{num}{suf}'' None
     = Inr ''pizza_J__order''"
    by simp
  show ?thesis
    using first second third fourth fifth by simp
qed

subsection \<open>The type descriptor\<close>

lemma FolJntType_init_valid:
  "ts \<in> set validTypes \<Longrightarrow>
     FolJntType_init (Some ts) =
       Inr \<lparr>p_name = None, p_typeString = Some ts,
            controlNode = Some (if CHR ''j'' \<in> set ts then ''j'' else ''f'')\<rparr>"
  by (auto simp: FolJntType_init_def FolJntType_set_def hasJoint_def typeString_def
        validTypes_def typeNames_def)

lemma tableRow_values:
  "tableRow \<lparr>p_name = None, p_typeString = Some ''t/f'', controlNode = Some ''f''\<rparr>
     = (Inr True, Inr False, Inr ''t'', Inr ''t'', Some ''f'')"
  "tableRow \<lparr>p_name = None, p_typeString = Some ''t/f-j'', controlNode = Some ''j''\<rparr>
     = (Inr True, Inr True, Inr ''t'', Inr ''t'', Some ''j'')"
  "tableRow \<lparr>p_name = None, p_typeString = Some ''t-j/f'', controlNode = Some ''j''\<rparr>
     = (Inr True, Inr True, Inr ''t'', Inr ''j'', Some ''j'')"
  "tableRow \<lparr>p_name = None, p_typeString = Some ''j/f'', controlNode = Some ''j''\<rparr>
     = (Inr False, Inr True, Inr ''j'', Inr ''j'', Some ''j'')"
  by (simp_all add: tableRow_def hasTransform_def hasJoint_def topTransform_def
        follicleParent_def typeString_def py_partition_def)

text \<open>
  C2, the claim as stated, fails twice. The table gives \<open>j\<close> as the top transform of
  \<^verbatim>\<open>t-j/f\<close>, but the descriptor answers \<open>t\<close>: a type with a transform always has
  the transform on top. And the empty string, which is none of the four type strings,
  constructs a descriptor without failing.
\<close>

theorem FolJntType_table_counterexample:
  "FolJntType_init (Some ''t-j/f'')
     = Inr \<lparr>p_name = None, p_typeString = Some ''t-j/f'', controlNode = Some ''j''\<rparr>
   \<and> topTransform \<lparr>p_name = None, p_typeString = Some ''t-j/f'', controlNode = Some ''j''\<rparr>
     = Inr ''t''
   \<and> topTransform \<lparr>p_name = None, p_typeString = Some ''t-j/f'', controlNode = Some ''j''\<rparr>
     \<noteq> Inr ''j''
   \<and> '''' \<notin> set validTypes
   \<and> FolJntType_init (Some '''')
     = Inr \<lparr>p_name = None, p_typeString = None, controlNode = None\<rparr>"
  by (simp add: FolJntType_init_def FolJntType_set_def hasJoint_def hasTransform_def
        topTransform_def typeString_def validTypes_def typeNames_def)

text \<open>
  C2, amended: for each of the four valid type strings the constructed descriptor has
  the values t/f: yes/no/t/t/f; t/f-j: yes/yes/t/t/j; t-j/f: yes/yes/t/j/j;
  j/f: no/yes/j/j/j (hasTransform/hasJoint/topTransform/follicleParent/controlNode), and
  constructing a descriptor with any non-empty string outside these four fails with an
  AssertionError.
\<close>

theorem FolJntType_table:
  "map_sum id tableRow (FolJntType_init (Some ''t/f''))
     = Inr (Inr True, Inr False, Inr ''t'', Inr ''t'', Some ''f'')
   \<and> map_sum id tableRow (FolJntType_init (Some ''t/f-j''))
     = Inr (Inr True, Inr True, Inr ''t'', Inr ''t'', Some ''j'')
   \<and> map_sum id tableRow (FolJntType_init (Some ''t-j/f''))
     = Inr (Inr True, Inr True, Inr ''t'', Inr ''j'', Some ''j'')
   \<and> map_sum id tableRow (FolJntType_init (Some ''j/f''))
     = Inr (Inr False, Inr True, Inr ''j'', Inr ''j'', Some ''j'')
   \<and> (ts \<noteq> [] \<and> ts \<notin> set validTypes \<longrightarrow>
        FolJntType_init (Some ts)
          = Inl (AssertionError ''%r is not a valid follicle joint type string!''))"
proof -
  have v: "''t/f'' \<in> set validTypes" "''t/f-j'' \<in> set validTypes"
    "''t-j/f'' \<in> set validTypes" "''j/f'' \<in> set validTypes"
    by (simp_all add: validTypes_def typeNames_def)
  have bad: "ts \<noteq> [] \<and> ts \<notin> set validTypes \<longrightarrow>
        FolJntType_init (Some ts)
          = Inl (AssertionError ''%r is not a valid follicle joint type string!'')"
    by (simp add: FolJntType_init_def FolJntType_set_def)
  show ?thesis
    using bad by (simp add: FolJntType_init_valid [OF v(1)] FolJntType_init_valid [OF v(2)]
        FolJntType_init_valid [OF v(3)] FolJntType_init_valid [OF v(4)] tableRow_values)
qed

theorem FolJntType_table_witness:
  "''f/t'' \<noteq> [] \<and> ''f/t'' \<notin> set validTypes
   \<and> FolJntType_init (Some ''f/t'')
       = Inl (AssertionError ''%r is not a valid follicle joint type string!'')"
proof -
  have h: "''f/t'' \<noteq> [] \<and> ''f/t'' \<notin> set validTypes"
    by (simp add: validTypes_def typeNames_def)
  show ?thesis
    using FolJntType_table [of "''f/t''"] h by simp
qed

subsection \<open>UV normalisation\<close>

text \<open>
  C6: on a NURBS patch whose range is exactly [0,1] on both axes the uv comes back
  unchanged; on a NURBS patch whose range is not [0,1] on both axes (each axis of
  non-zero length), with warning-only false, each axis comes back as
  raw / (range length) + range minimum, so that [1.0, 0.5] on a [0,2]x[0,1] surface
  gives [0.5, 0.5]; on a patch that is not a NURBS surface the call fails with the
  StandardError "Patch must be a nurbSurface shape PyNode!".
\<close>

theorem normalisedNurbsUV_rescale:
  "(patchIsNurb p \<and> minValueU p = 0 \<and> maxValueU p = 1 \<and> minValueV p = 0 \<and> maxValueV p = 1
      \<longrightarrow> normalisedNurbsUV p uv giveWarning warningOnly = Inr uv)
   \<and> (patchIsNurb p
        \<and> \<not> (minValueU p = 0 \<and> maxValueU p = 1 \<and> minValueV p = 0 \<and> maxValueV p = 1)
        \<and> maxValueU p \<noteq> minValueU p \<and> maxValueV p \<noteq> minValueV p
      \<longrightarrow> normalisedNurbsUV p [u, v] giveWarning False
            = Inr [u / (maxValueU p - minValueU p) + minValueU p,
                   v / (maxValueV p - minValueV p) + minValueV p])
   \<and> normalisedNurbsUV
        \<lparr>patchNode = n, patchType = ''nurbsSurface'',
         minValueU = 0, maxValueU = 2, minValueV = 0, maxValueV = 1\<rparr>
        [1, 1 / 2] giveWarning False = Inr [1 / 2, 1 / 2]
   \<and> (\<not> patchIsNurb p
      \<longrightarrow> normalisedNurbsUV p uv giveWarning warningOnly
            = Inl (StandardError ''Patch must be a nurbSurface shape PyNode!''))"
  by (simp add: normalisedNurbsUV_def patchIsNurb_def Let_def)

theorem normalisedNurbsUV_rescale_witness:
  "normalisedNurbsUV
     \<lparr>patchNode = ''ribbonShape'', patchType = ''nurbsSurface'',
      minValueU = 0, maxValueU = 1, minValueV = 0, maxValueV = 1\<rparr>
     [3 / 10, 7 / 10] True False = Inr [3 / 10, 7 / 10]
   \<and> normalisedNurbsUV
     \<lparr>patchNode = ''ribbonShape'', patchType = ''nurbsSurface'',
      minValueU = 1, maxValueU = 5, minValueV = 0, maxValueV = 2\<rparr>
     [2, 1] True False = Inr [3 / 2, 1 / 2]
   \<and> normalisedNurbsUV
     \<lparr>patchNode = ''faceShape'', patchType = ''mesh'',
      minValueU = 0, maxValueU = 1, minValueV = 0, maxValueV = 1\<rparr>
     [3 / 10, 7 / 10] True False
       = Inl (StandardError ''Patch must be a nurbSurface shape PyNode!'')"
  using
    normalisedNurbsUV_rescale [of
      "\<lparr>patchNode = ''ribbonShape'', patchType = ''nurbsSurface'',
        minValueU = 0, maxValueU = 1, minValueV = 0, maxValueV = 1\<rparr>"
      "[3 / 10, 7 / 10]" True False]
    normalisedNurbsUV_rescale [of
      "\<lparr>patchNode = ''ribbonShape'', patchType = ''nurbsSurface'',
        minValueU = 1, maxValueU = 5, minValueV = 0, maxValueV = 2\<rparr>"
      _ True _ 2 1]
    normalisedNurbsUV_rescale [of
      "\<lparr>patchNode = ''faceShape'', patchType = ''mesh'',
        minValueU = 0, maxValueU = 1, minValueV = 0, maxValueV = 1\<rparr>"
      "[3 / 10, 7 / 10]" True False]
  by (simp add: patchIsNurb_def)

text \<open>
  A range of length zero is not rescaled: the division raises.
\<close>

lemma normalisedNurbsUV_degenerate:
  "normalisedNurbsUV
     \<lparr>patchNode = n, patchType = ''nurbsSurface'',
      minValueU = 0, maxValueU = 0, minValueV = 0, maxValueV = 1\<rparr>
     [u, v] giveWarning False = Inl (ZeroDivisionError ''float division by zero'')"
  by (simp add: normalisedNurbsUV_def patchIsNurb_def)

subsection \<open>Grid placement\<close>

lemma FollicleJoint_new_raw:
  "FollicleJoint_new p [u, v] False False = Inr \<lparr>unitPatch = p, unitU = u, unitV = v\<rparr>"
  by (simp add: FollicleJoint_new_def normalisedNurbsUV_def)

lemma py_range_values: "py_range 0 = []" "py_range 1 = [0]" "py_range 2 = [0, 1]"
  by (simp_all add: py_range_def upt_rec numeral_2_eq_2)

text \<open>
  The first half of C7 holds: two rows in U, edge-bounded, and one centred row in V give
  exactly two units, at (0, 1/2) and (1, 1/2).
\<close>

lemma newFollicleGrid_two_by_one:
  "newFollicleGrid (Inr (Some p)) (2, 1) (1, 0) (None, None, None, None)
     = Inr [\<lparr>unitPatch = p, unitU = 0, unitV = 1 / 2\<rparr>,
            \<lparr>unitPatch = p, unitU = 1, unitV = 1 / 2\<rparr>]"
  by (simp add: newFollicleGrid_def py_range_values FollicleJoint_new_raw)

text \<open>
  So does the guard for one row on an edge-bounded axis.
\<close>

lemma newFollicleGrid_one_row_edge_bounded:
  "fst uvRows = 1 \<and> fst edgeBounded = 1 \<or> snd uvRows = 1 \<and> snd edgeBounded = 1 \<Longrightarrow>
     newFollicleGrid patchTest uvRows edgeBounded rng
       = Inl (StandardError ''Minimum 2 rows for edge-bounded rows!'')"
  by (auto simp: newFollicleGrid_def)

text \<open>
  C7, the failing input: no rows at all on the edge-bounded U axis. The guard compares
  rows - edgeBounded with 0 only, so the call raises nothing; it creates no unit and
  returns the empty list, where the claim (and the guard's own message, "Minimum 2 rows
  for edge-bounded rows!") asks for a failure.
\<close>

theorem newFollicleGrid_zero_rows_no_error:
  "newFollicleGrid (Inr (Some p)) (0, 1) (1, 0) (None, None, None, None) = Inr []"
  by (simp add: newFollicleGrid_def py_range_values)

subsection \<open>The reversible-call wrapper\<close>


lemma runUndoable_unfold:
  "runUndoable self args kwargs journal =
     (case wrappedResult self args kwargs journal of
        (journal2, Returned) \<Rightarrow> (journal2 @ [CloseChunk], Returned)
      | (journal2, Raised e) \<Rightarrow>
          (if excIsException e then
             (case flattenArgs (excArgs e) of
                None \<Rightarrow> (journal2 @ [CloseChunk], Raised joinTypeError)
              | Some description \<Rightarrow>
                  (journal2 @ [CloseChunk, EvalDeferred (errorCommand (excName e) description)],
                   Returned))
           else (journal2 @ [CloseChunk], Returned)))"
  unfolding runUndoable_def wrappedResult_def Let_def by (rule refl)

lemma cleanupCalls_cases:
  assumes "wrappedResult self args kwargs journal = (journal2, out)"
  shows "cleanupCalls self args kwargs journal =
     (case out of
        Returned \<Rightarrow> [CloseChunk]
      | Raised e \<Rightarrow>
          (if excIsException e then
             (case flattenArgs (excArgs e) of
                None \<Rightarrow> [CloseChunk]
              | Some description \<Rightarrow> [CloseChunk, EvalDeferred (errorCommand (excName e) description)])
           else [CloseChunk]))"
  unfolding cleanupCalls_def runUndoable_unfold assms
  by (cases out) (simp_all split: option.split)

lemma runUndoable_journal:
  "fst (runUndoable self args kwargs journal)
     = fst (wrappedResult self args kwargs journal) @ cleanupCalls self args kwargs journal"
proof (cases "wrappedResult self args kwargs journal")
  case (Pair journal2 out)
  show ?thesis
    unfolding cleanupCalls_cases [OF Pair] unfolding runUndoable_unfold Pair
    by (cases out) (simp_all split: option.split)
qed

text \<open>
  C1, the claim as stated, fails: a wrapped function that raises
  \<^verbatim>\<open>StandardError('boom')\<close> has its chunk closed and the deferred error command sent,
  but the call then returns normally; the error does not reach the caller.
\<close>

theorem runUndoable_swallows_counterexample:
  "runUndoable
     \<lparr>uiFunction = (\<lambda>args kwargs journal.
         (journal, Raised \<lparr>excName = ''StandardError'', excArgs = [ArgStr ''boom''],
                           excIsException = True\<rparr>)),
      presetArgs = ([] :: nat list), presetKwargs = Map.empty, noArgs = True\<rparr>
     [] Map.empty []
   = ([OpenChunk, CloseChunk, EvalDeferred (''error '' @ [CHR 0x22] @ ''StandardError: boom'' @ [CHR 0x22])],
      Returned)"
  by (simp add: runUndoable_def flattenArgs_def errorCommand_def)

text \<open>
  C1, amended: for every wrapped call, runUndoable closes its undo boundary exactly once
  after the wrapped function has ended, whether or not that function raises; when the
  function returns, the wrapper returns; when it raises an exception whose arguments are
  strings, the wrapper closes the boundary, sends the deferred host-level error command
  (error kind and the arguments joined into one line) and then returns normally, the
  error being discarded rather than re-raised.
\<close>

theorem runUndoable_closes_once:
  "count_list (cleanupCalls self args kwargs journal) CloseChunk = 1
   \<and> (snd (wrappedResult self args kwargs journal) = Returned \<longrightarrow>
        runUndoable self args kwargs journal
          = (fst (wrappedResult self args kwargs journal) @ [CloseChunk], Returned))
   \<and> (snd (wrappedResult self args kwargs journal) = Raised e \<and> excIsException e
        \<and> flattenArgs (excArgs e) = Some description \<longrightarrow>
        runUndoable self args kwargs journal
          = (fst (wrappedResult self args kwargs journal)
               @ [CloseChunk, EvalDeferred (errorCommand (excName e) description)],
             Returned))"
proof (cases "wrappedResult self args kwargs journal")
  case (Pair journal2 out)
  have once: "count_list (cleanupCalls self args kwargs journal) CloseChunk = 1"
    unfolding cleanupCalls_cases [OF Pair]
    by (cases out) (simp_all split: option.split)
  have rest: "(out = Returned \<longrightarrow>
        runUndoable self args kwargs journal = (journal2 @ [CloseChunk], Returned))
   \<and> (out = Raised e \<and> excIsException e \<and> flattenArgs (excArgs e) = Some description \<longrightarrow>
        runUndoable self args kwargs journal
          = (journal2 @ [CloseChunk, EvalDeferred (errorCommand (excName e) description)], Returned))"
    unfolding runUndoable_unfold Pair by simp
  show ?thesis
    using once rest by (simp add: Pair)
qed


theorem runUndoable_closes_once_witness:
  "runUndoable
     \<lparr>uiFunction = (\<lambda>args kwargs journal. (journal @ [EngineCall ''freezeOffsets''], Returned)),
      presetArgs = ([] :: nat list), presetKwargs = Map.empty, noArgs = True\<rparr>
     [] Map.empty []
     = ([OpenChunk, EngineCall ''freezeOffsets'', CloseChunk], Returned)
   \<and> runUndoable
     \<lparr>uiFunction = (\<lambda>args kwargs journal.
         (journal @ [EngineCall ''freezeOffsets''],
          Raised \<lparr>excName = ''ValueError'', excArgs = [ArgStr ''bad'', ArgStr ''value''],
                  excIsException = True\<rparr>)),
      presetArgs = ([] :: nat list), presetKwargs = Map.empty, noArgs = True\<rparr>
     [] Map.empty []
     = ([OpenChunk, EngineCall ''freezeOffsets'', CloseChunk,
         EvalDeferred (errorCommand ''ValueError'' ''bad; value'')], Returned)"
  using
    runUndoable_closes_once [of
      "\<lparr>uiFunction = (\<lambda>args kwargs journal. (journal @ [EngineCall ''freezeOffsets''], Returned)),
        presetArgs = ([] :: nat list), presetKwargs = Map.empty, noArgs = True\<rparr>"
      "[]" Map.empty "[]"]
    runUndoable_closes_once [of
      "\<lparr>uiFunction = (\<lambda>args kwargs journal.
         (journal @ [EngineCall ''freezeOffsets''],
          Raised \<lparr>excName = ''ValueError'', excArgs = [ArgStr ''bad'', ArgStr ''value''],
                  excIsException = True\<rparr>)),
        presetArgs = ([] :: nat list), presetKwargs = Map.empty, noArgs = True\<rparr>"
      "[]" Map.empty "[]"
      "\<lparr>excName = ''ValueError'', excArgs = [ArgStr ''bad'', ArgStr ''value''],
        excIsException = True\<rparr>"
      "''bad; value''"]
  by (simp add: wrappedResult_def flattenArgs_def)

subsection \<open>freeze\<close>


lemma setAttr_free:
  "isFreeToChange s p \<Longrightarrow> setAttr s p v = Inr (s\<lparr>attrValue := (attrValue s)(p \<mapsto> v)\<rparr>)"
  by (simp add: setAttr_def isFreeToChange_def)

lemma setAttr_refused:
  "attrValue s p \<noteq> None \<Longrightarrow> \<not> isFreeToChange s p \<Longrightarrow>
     setAttr s p v = Inl (RuntimeError ''setAttr: The attribute is locked or connected and cannot be modified.'')"
  by (simp add: setAttr_def)

lemma freezeError_refused:
  "freezeError (RuntimeError m)
     = StandardError ''Offsets on '%s' were not able to be frozen due to connections or locked attributes!''"
  by (simp add: freezeError_def)

text \<open>
  Where the two base parameters can be written as well, freeze does what is asked of it:
  for a unit whose control node is not the constraint node and carries the base and
  offset attributes, offsets that are not both zero and can be set are zeroed and the
  constraint node's resolved parameters, captured first, are written into the base
  parameters; if either offset cannot be set the StandardError "locked or connected" is
  raised with the base parameters as they were; if both offsets are zero nothing changes
  and nothing is raised.
\<close>

lemma freeze_shifts_offsets:
  assumes ctrl: "controlObj self = Inr (Some c)" and differs: "c \<noteq> fol self"
    and pu: "attrValue s (c, ''pu'') = Some pu" and pv: "attrValue s (c, ''pv'') = Some pv"
    and ou: "attrValue s (c, ''ou'') = Some ou" and ov: "attrValue s (c, ''ov'') = Some ov"
    and endU: "attrValue s (fol self, ''pu'') = Some endU"
    and endV: "attrValue s (fol self, ''pv'') = Some endV"
  shows "((ou \<noteq> 0 \<or> ov \<noteq> 0)
          \<and> isFreeToChange s (c, ''ou'') \<and> isFreeToChange s (c, ''ov'')
          \<and> isFreeToChange s (c, ''pu'') \<and> isFreeToChange s (c, ''pv'')
         \<longrightarrow> freeze self s =
               (Inr True,
                s\<lparr>attrValue := (attrValue s)((c, ''ou'') \<mapsto> 0, (c, ''ov'') \<mapsto> 0,
                                              (c, ''pu'') \<mapsto> endU, (c, ''pv'') \<mapsto> endV)\<rparr>))
      \<and> ((ou \<noteq> 0 \<or> ov \<noteq> 0)
          \<and> (\<not> isFreeToChange s (c, ''ou'') \<or> \<not> isFreeToChange s (c, ''ov''))
         \<longrightarrow> fst (freeze self s) =
               Inl (StandardError ''Offsets on '%s' were not able to be frozen due to connections or locked attributes!'')
             \<and> attrValue (snd (freeze self s)) (c, ''pu'') = Some pu
             \<and> attrValue (snd (freeze self s)) (c, ''pv'') = Some pv)
      \<and> (ou = 0 \<and> ov = 0 \<longrightarrow> freeze self s = (Inr False, s))"
proof (intro conjI impI)
  have nz: "offsetsNonZero s c = Inr (ou \<noteq> 0 \<or> ov \<noteq> 0)"
    by (simp add: offsetsNonZero_def getAttr_def ou ov)
  have entry: "c \<noteq> fol self \<and> hasAttr s c ''pu''"
    by (simp add: differs hasAttr_def pu)
  have reads: "getAttr s (fol self, ''pu'') = Inr endU" "getAttr s (fol self, ''pv'') = Inr endV"
    by (simp_all add: getAttr_def endU endV)
  {
    assume a: "(ou \<noteq> 0 \<or> ov \<noteq> 0)
          \<and> isFreeToChange s (c, ''ou'') \<and> isFreeToChange s (c, ''ov'')
          \<and> isFreeToChange s (c, ''pu'') \<and> isFreeToChange s (c, ''pv'')"
    have free: "(c, ''ou'') \<notin> attrLocked s" "(c, ''ov'') \<notin> attrLocked s"
      "(c, ''pu'') \<notin> attrLocked s" "(c, ''pv'') \<notin> attrLocked s"
      "(c, ''ou'') \<notin> snd ` set (connections s)" "(c, ''ov'') \<notin> snd ` set (connections s)"
      "(c, ''pu'') \<notin> snd ` set (connections s)" "(c, ''pv'') \<notin> snd ` set (connections s)"
      using a by (simp_all add: isFreeToChange_def)
    from a have "offsetsNonZero s c = Inr True" by (simp add: nz)
    then show "freeze self s =
               (Inr True,
                s\<lparr>attrValue := (attrValue s)((c, ''ou'') \<mapsto> 0, (c, ''ov'') \<mapsto> 0,
                                              (c, ''pu'') \<mapsto> endU, (c, ''pv'') \<mapsto> endV)\<rparr>)"
      unfolding freeze_def ctrl
      by (simp add: entry reads setAttr_def isFreeToChange_def free pu pv ou ov)
  }
  {
    assume b: "(ou \<noteq> 0 \<or> ov \<noteq> 0)
          \<and> (\<not> isFreeToChange s (c, ''ou'') \<or> \<not> isFreeToChange s (c, ''ov''))"
    then have t: "offsetsNonZero s c = Inr True" by (simp add: nz)
    have result: "fst (freeze self s) =
               Inl (StandardError ''Offsets on '%s' were not able to be frozen due to connections or locked attributes!'')
             \<and> attrValue (snd (freeze self s)) (c, ''pu'') = Some pu
             \<and> attrValue (snd (freeze self s)) (c, ''pv'') = Some pv"
    proof (cases "isFreeToChange s (c, ''ou'')")
      case False
      have "setAttr s (c, ''ou'') 0
              = Inl (RuntimeError ''setAttr: The attribute is locked or connected and cannot be modified.'')"
        using False by (intro setAttr_refused) (simp_all add: ou)
      then show ?thesis
        unfolding freeze_def ctrl by (simp add: entry reads t freezeError_refused pu pv)
    next
      case True
      let ?s1 = "s\<lparr>attrValue := (attrValue s)((c, ''ou'') \<mapsto> 0)\<rparr>"
      have w1: "setAttr s (c, ''ou'') 0 = Inr ?s1"
        using True by (simp add: setAttr_free)
      from True b have nov: "\<not> isFreeToChange s (c, ''ov'')" by simp
      have w2: "setAttr ?s1 (c, ''ov'') 0
              = Inl (RuntimeError ''setAttr: The attribute is locked or connected and cannot be modified.'')"
        using nov by (intro setAttr_refused) (simp_all add: ov isFreeToChange_def)
      show ?thesis
        unfolding freeze_def ctrl by (simp add: entry reads t w1 w2 freezeError_refused pu pv)
    qed
    from result show "fst (freeze self s) =
               Inl (StandardError ''Offsets on '%s' were not able to be frozen due to connections or locked attributes!'')"
      by simp
    from result show "attrValue (snd (freeze self s)) (c, ''pu'') = Some pu" by simp
    from result show "attrValue (snd (freeze self s)) (c, ''pv'') = Some pv" by simp
  }
  {
    assume "ou = 0 \<and> ov = 0"
    then have "offsetsNonZero s c = Inr False" by (simp add: nz)
    then show "freeze self s = (Inr False, s)"
      unfolding freeze_def ctrl by (simp add: entry)
  }
qed


lemma browUnit_control: "controlObj browUnit = Inr (Some ''L_brow_J_1'')"
  by (simp add: controlObj_def browUnit_def standardType_def)

lemma browUnit_fol: "fol browUnit = ''L_brow1Shape''"
  by (simp add: browUnit_def)

lemma browScene_values:
  "attrValue browScene (''L_brow_J_1'', ''pu'') = Some (1 / 5)"
  "attrValue browScene (''L_brow_J_1'', ''pv'') = Some (1 / 2)"
  "attrValue browScene (''L_brow_J_1'', ''ou'') = Some 1"
  "attrValue browScene (''L_brow_J_1'', ''ov'') = Some 2"
  "attrValue browScene (''L_brow1Shape'', ''pu'') = Some (3 / 10)"
  "attrValue browScene (''L_brow1Shape'', ''pv'') = Some (7 / 10)"
  by (simp_all add: browScene_def browValues_def)

lemma browScene_free:
  "isFreeToChange browScene (''L_brow_J_1'', ''pu'')"
  "isFreeToChange browScene (''L_brow_J_1'', ''pv'')"
  "isFreeToChange browScene (''L_brow_J_1'', ''ou'')"
  "isFreeToChange browScene (''L_brow_J_1'', ''ov'')"
  by (simp_all add: isFreeToChange_def browScene_def browValues_def)

lemma liveBrowScene_values: "attrValue liveBrowScene = attrValue browScene"
  by (simp add: liveBrowScene_def)

lemma liveBrowScene_free:
  "isFreeToChange liveBrowScene (''L_brow_J_1'', ''ou'')"
  "isFreeToChange liveBrowScene (''L_brow_J_1'', ''ov'')"
  "\<not> isFreeToChange liveBrowScene (''L_brow_J_1'', ''pu'')"
  by (simp_all add: isFreeToChange_def liveBrowScene_def browScene_def browValues_def)

text \<open>
  C3, the failing input: both offsets non-zero and settable, the base parameters driven
  by a live closest-point solver. The source means to validate first ("Ensure the
  offsets can be reset, before changing anything else") and turns a refused offset write
  into its StandardError, but the writes to the base parameters are outside that guard:
  freeze zeroes both offsets and then ends on the host's RuntimeError. The captured
  values 3/10 and 7/10 never reach the base parameters, which stay at 1/5 and 1/2, and
  the unit is left half frozen, where the claim has the captured values written.
\<close>

theorem freeze_connected_base_half_frozen:
  "controlObj browUnit = Inr (Some ''L_brow_J_1'')
   \<and> ''L_brow_J_1'' \<noteq> fol browUnit
   \<and> getAttr liveBrowScene (''L_brow_J_1'', ''ou'') = Inr 1
   \<and> getAttr liveBrowScene (''L_brow_J_1'', ''ov'') = Inr 2
   \<and> isFreeToChange liveBrowScene (''L_brow_J_1'', ''ou'')
   \<and> isFreeToChange liveBrowScene (''L_brow_J_1'', ''ov'')
   \<and> getAttr liveBrowScene (fol browUnit, ''pu'') = Inr (3 / 10)
   \<and> getAttr liveBrowScene (fol browUnit, ''pv'') = Inr (7 / 10)
   \<and> fst (freeze browUnit liveBrowScene)
       = Inl (RuntimeError ''setAttr: The attribute is locked or connected and cannot be modified.'')
   \<and> getAttr (snd (freeze browUnit liveBrowScene)) (''L_brow_J_1'', ''ou'') = Inr 0
   \<and> getAttr (snd (freeze browUnit liveBrowScene)) (''L_brow_J_1'', ''ov'') = Inr 0
   \<and> getAttr (snd (freeze browUnit liveBrowScene)) (''L_brow_J_1'', ''pu'') = Inr (1 / 5)
   \<and> getAttr (snd (freeze browUnit liveBrowScene)) (''L_brow_J_1'', ''pv'') = Inr (1 / 2)"
proof -
  have nz: "offsetsNonZero liveBrowScene ''L_brow_J_1'' = Inr True"
    by (simp add: offsetsNonZero_def getAttr_def liveBrowScene_values browScene_values)
  have run: "freeze browUnit liveBrowScene
      = (Inl (RuntimeError ''setAttr: The attribute is locked or connected and cannot be modified.''),
         liveBrowScene\<lparr>attrValue := (attrValue browScene)((''L_brow_J_1'', ''ou'') \<mapsto> 0,
                                                              (''L_brow_J_1'', ''ov'') \<mapsto> 0)\<rparr>)"
    unfolding freeze_def browUnit_control
    using liveBrowScene_free
    by (simp add: browUnit_fol hasAttr_def nz getAttr_def setAttr_def isFreeToChange_def
          liveBrowScene_values browScene_values)
  show ?thesis
    unfolding run using liveBrowScene_free
    by (simp add: browUnit_control browUnit_fol getAttr_def liveBrowScene_values browScene_values)
qed

lemma freeze_shifts_offsets_examples:
  "freeze browUnit browScene
     = (Inr True,
        browScene\<lparr>attrValue := (attrValue browScene)
          ((''L_brow_J_1'', ''ou'') \<mapsto> 0, (''L_brow_J_1'', ''ov'') \<mapsto> 0,
           (''L_brow_J_1'', ''pu'') \<mapsto> 3 / 10, (''L_brow_J_1'', ''pv'') \<mapsto> 7 / 10)\<rparr>)
   \<and> fst (freeze browUnit (browScene\<lparr>attrLocked := {(''L_brow_J_1'', ''ov'')}\<rparr>))
     = Inl (StandardError ''Offsets on '%s' were not able to be frozen due to connections or locked attributes!'')
   \<and> attrValue (snd (freeze browUnit (browScene\<lparr>attrLocked := {(''L_brow_J_1'', ''ov'')}\<rparr>)))
        (''L_brow_J_1'', ''pu'') = Some (1 / 5)
   \<and> freeze browUnit (browScene\<lparr>attrValue := (attrValue browScene)
          ((''L_brow_J_1'', ''ou'') \<mapsto> 0, (''L_brow_J_1'', ''ov'') \<mapsto> 0)\<rparr>)
     = (Inr False, browScene\<lparr>attrValue := (attrValue browScene)
          ((''L_brow_J_1'', ''ou'') \<mapsto> 0, (''L_brow_J_1'', ''ov'') \<mapsto> 0)\<rparr>)"
proof -
  let ?j = "''L_brow_J_1''"
  let ?locked = "browScene\<lparr>attrLocked := {(?j, ''ov'')}\<rparr>"
  let ?resting = "browScene\<lparr>attrValue := (attrValue browScene)((?j, ''ou'') \<mapsto> 0, (?j, ''ov'') \<mapsto> 0)\<rparr>"
  have d: "?j \<noteq> fol browUnit" by (simp add: browUnit_fol)
  have f: "attrValue browScene (fol browUnit, ''pu'') = Some (3 / 10)"
    "attrValue browScene (fol browUnit, ''pv'') = Some (7 / 10)"
    by (simp_all add: browUnit_fol browScene_values)
  have first: "freeze browUnit browScene
     = (Inr True,
        browScene\<lparr>attrValue := (attrValue browScene)
          ((?j, ''ou'') \<mapsto> 0, (?j, ''ov'') \<mapsto> 0, (?j, ''pu'') \<mapsto> 3 / 10, (?j, ''pv'') \<mapsto> 7 / 10)\<rparr>)"
    using freeze_shifts_offsets [OF browUnit_control d browScene_values(1-4) f] browScene_free
    by simp
  have lv: "attrValue ?locked (?j, ''pu'') = Some (1 / 5)" "attrValue ?locked (?j, ''pv'') = Some (1 / 2)"
    "attrValue ?locked (?j, ''ou'') = Some 1" "attrValue ?locked (?j, ''ov'') = Some 2"
    "attrValue ?locked (fol browUnit, ''pu'') = Some (3 / 10)"
    "attrValue ?locked (fol browUnit, ''pv'') = Some (7 / 10)"
    by (simp_all add: browScene_values f)
  have lf: "\<not> isFreeToChange ?locked (?j, ''ov'')"
    by (simp add: isFreeToChange_def)
  have second: "fst (freeze browUnit ?locked)
     = Inl (StandardError ''Offsets on '%s' were not able to be frozen due to connections or locked attributes!'')
     \<and> attrValue (snd (freeze browUnit ?locked)) (?j, ''pu'') = Some (1 / 5)"
    using freeze_shifts_offsets [OF browUnit_control d lv] lf
    by simp
  have rv: "attrValue ?resting (?j, ''pu'') = Some (1 / 5)" "attrValue ?resting (?j, ''pv'') = Some (1 / 2)"
    "attrValue ?resting (?j, ''ou'') = Some 0" "attrValue ?resting (?j, ''ov'') = Some 0"
    "attrValue ?resting (fol browUnit, ''pu'') = Some (3 / 10)"
    "attrValue ?resting (fol browUnit, ''pv'') = Some (7 / 10)"
    by (simp_all add: browScene_values browUnit_fol)
  have third: "freeze browUnit ?resting = (Inr False, ?resting)"
    using freeze_shifts_offsets [OF browUnit_control d rv]
    by simp
  show ?thesis
    using first second third by simp
qed


subsection \<open>transferToPatch\<close>

text \<open>
  C5, the failing input: relocation by closest point with no uv supplied. Whatever the
  unit, the new patch and the uv the lookup finds, the call ends in NameError at
  \<^verbatim>\<open>newUV = outVals[0]\<close>, before anything is disconnected, written or reconnected; the
  scene is as it was.
\<close>

theorem transferToPatch_closest_point_NameError:
  "transferToPatch self (Inr p) (Inr outUVVals) None True useSmoothedMesh s
     = (Inl (NameError ''global name 'outVals' is not defined''), s)
   \<and> transferToPatch self (Inr p) (Inr outUVVals) (Some []) True useSmoothedMesh s
     = (Inl (NameError ''global name 'outVals' is not defined''), s)"
  by (simp add: transferToPatch_def)

text \<open>
  With the uv supplied, as the batch operation does, the same branch writes the uv less
  the live offset and reconnects the follicle to the new patch.
\<close>

lemma transferToPatch_supplied_uv:
  "transferToPatch browUnit
     (Inr \<lparr>patchNode = ''faceShape'', patchType = ''mesh'',
           minValueU = 0, maxValueU = 1, minValueV = 0, maxValueV = 1\<rparr>)
     closestUVs (Some [1 / 2, 1 / 2]) True True browScene
   = (Inr True,
      browScene\<lparr>attrValue := (attrValue browScene)
                   ((''L_brow_J_1'', ''pu'') \<mapsto> 2 / 5, (''L_brow_J_1'', ''pv'') \<mapsto> 3 / 10),
                 connections := connections browScene @
                   [((''faceShape'', ''worldMatrix[0]''), (''L_brow1Shape'', ''inputWorldMatrix'')),
                    ((''faceShape'', ''outSmoothMesh''), (''L_brow1Shape'', ''inputMesh''))]\<rparr>)"
proof -
  have ctrl: "controlObj browUnit = Inr (Some ''L_brow_J_1'')"
    by (simp add: controlObj_def browUnit_def standardType_def)
  have nopatch: "disconnectFromPatch browUnit browScene = browScene"
    by (simp add: disconnectFromPatch_def patchOf_def inputsOf_def browUnit_def browScene_def)
  have w: "writeRelocatedUV browUnit [1 / 2, 1 / 2] browScene
      = (Inr (), browScene\<lparr>attrValue := (attrValue browScene)
                   ((''L_brow_J_1'', ''pu'') \<mapsto> 2 / 5, (''L_brow_J_1'', ''pv'') \<mapsto> 3 / 10)\<rparr>)"
    unfolding writeRelocatedUV_def ctrl
    by (simp add: getAttr_def setAttr_def isFreeToChange_def browUnit_def browScene_def browValues_def)
  have c: "connectToPatch browUnit
       \<lparr>patchNode = ''faceShape'', patchType = ''mesh'',
        minValueU = 0, maxValueU = 1, minValueV = 0, maxValueV = 1\<rparr> True
       (browScene\<lparr>attrValue := (attrValue browScene)
                   ((''L_brow_J_1'', ''pu'') \<mapsto> 2 / 5, (''L_brow_J_1'', ''pv'') \<mapsto> 3 / 10)\<rparr>)
     = browScene\<lparr>attrValue := (attrValue browScene)
                   ((''L_brow_J_1'', ''pu'') \<mapsto> 2 / 5, (''L_brow_J_1'', ''pv'') \<mapsto> 3 / 10),
                 connections := connections browScene @
                   [((''faceShape'', ''worldMatrix[0]''), (''L_brow1Shape'', ''inputWorldMatrix'')),
                    ((''faceShape'', ''outSmoothMesh''), (''L_brow1Shape'', ''inputMesh''))]\<rparr>"
    by (simp add: connectToPatch_def connectAttrForce_def patchIsNurb_def browUnit_def
          browScene_def)
  show ?thesis
    unfolding transferToPatch_def
    by (simp add: nopatch w c)
qed

subsection \<open>copyValuesToMirror\<close>



lemma setValues_frame:
  "setValues a its s = (r, s') \<Longrightarrow>
     attrLocked s' = attrLocked s \<and> connections s' = connections s
     \<and> dom (attrValue s') = dom (attrValue s)"
proof (induction its arbitrary: s)
  case Nil
  then show ?case by simp
next
  case (Cons it its)
  show ?case
  proof (cases "isFreeToChange s (toAttr it)")
    case False
    with Cons show ?thesis by simp
  next
    case True
    show ?thesis
    proof (cases "getAttr s (fromAttr it)")
      case (Inl e)
      with True Cons.prems show ?thesis by simp
    next
      case (Inr val)
      let ?s1 = "s\<lparr>attrValue := (attrValue s)(toAttr it \<mapsto> mirroredValue a it val)\<rparr>"
      have w: "setAttr s (toAttr it) (mirroredValue a it val) = Inr ?s1"
        using True by (simp add: setAttr_def isFreeToChange_def)
      from Cons.prems True Inr w have "setValues a its ?s1 = (r, s')" by simp
      note ih = Cons.IH [OF this]
      have e: "attrLocked ?s1 = attrLocked s" "connections ?s1 = connections s"
        "attrValue ?s1 = (attrValue s)(toAttr it \<mapsto> mirroredValue a it val)"
        by simp_all
      have "toAttr it \<in> dom (attrValue s)"
        using True by (simp add: isFreeToChange_def domIff)
      then have d: "dom ((attrValue s)(toAttr it \<mapsto> mirroredValue a it val)) = dom (attrValue s)"
        by (simp only: dom_fun_upd option.simps if_False insert_absorb)
      show ?thesis
        using ih unfolding e d .
    qed
  qed
qed

lemma setValues_free:
  "setValues a its s = (r, s') \<Longrightarrow> isFreeToChange s' p = isFreeToChange s p"
proof -
  assume "setValues a its s = (r, s')"
  from setValues_frame [OF this] have f: "attrLocked s' = attrLocked s"
    "connections s' = connections s" "dom (attrValue s') = dom (attrValue s)"
    by simp_all
  have "(attrValue s' p \<noteq> None) = (attrValue s p \<noteq> None)"
    using f(3) by (metis domIff)
  then show ?thesis
    unfolding isFreeToChange_def f(1) f(2) by simp
qed

lemma setValues_untouched:
  "p \<notin> toAttr ` set its \<Longrightarrow> attrValue (snd (setValues a its s)) p = attrValue s p"
proof (induction its arbitrary: s)
  case Nil
  then show ?case by simp
next
  case (Cons it its)
  then have ne: "p \<noteq> toAttr it" and rest: "p \<notin> toAttr ` set its" by auto
  show ?case
    using Cons.IH [OF rest] ne
    by (auto simp: setAttr_def split: sum.splits)
qed

lemma setValues_append:
  "setValues a (xs @ ys) s =
     (case setValues a xs s of
        (Some e, s1) \<Rightarrow> (Some e, s1)
      | (None, s1) \<Rightarrow> setValues a ys s1)"
  by (induction xs arbitrary: s) (auto split: sum.splits)

lemma setValues_append_ok:
  assumes "setValues a (xs @ ys) s = (None, s')"
  obtains s1 where "setValues a xs s = (None, s1)" and "setValues a ys s1 = (None, s')"
  using assms unfolding setValues_append
  by (cases "setValues a xs s") (auto split: option.splits)


lemma copyPair_toAttr:
  "copyPair s toObj fromObj a k spec = Inr it \<Longrightarrow> snd (toAttr it) = a"
  by (auto simp: copyPair_def bindE_def attrOf_def split: sum.splits option.splits if_splits)

lemma copyPair_found:
  "attrValue s (t, a) \<noteq> None \<Longrightarrow> attrValue s (f, a) \<noteq> None \<Longrightarrow>
     copyPair s (Inr (Some t)) (Inr (Some f)) a k spec
       = Inr \<lparr>toAttr = (t, a), fromAttr = (f, a), uvIndex = k, mirrorSpec = spec\<rparr>"
  by (simp add: copyPair_def bindE_def attrOf_def hasAttr_def)

lemma baseItems_toAttr:
  assumes "baseItems self mirCtrl opts s = Inr b" and "it \<in> set b"
  shows "snd (toAttr it) = ''pu'' \<or> snd (toAttr it) = ''pv''"
proof (cases "baseValues opts")
  case False
  with assms show ?thesis by (simp add: baseItems_def)
next
  case True
  with assms(1) obtain u v where
    u: "copyPair s (Inr mirCtrl) (controlObj self) ''pu'' 0 (Some (midVal opts, uvRange opts)) = Inr u"
    and v: "copyPair s (Inr mirCtrl) (controlObj self) ''pv'' 1 (Some (midVal opts, uvRange opts)) = Inr v"
    and b: "b = [u, v]"
    by (auto simp: baseItems_def bindE_def split: sum.splits)
  from assms(2) b copyPair_toAttr [OF u] copyPair_toAttr [OF v] show ?thesis by auto
qed

lemma radiusItems_toAttr:
  assumes "radiusItems self mirrorObj opts s = Inr r" and "it \<in> set r"
  shows "snd (toAttr it) = ''radius''"
  using assms
  by (auto simp: radiusItems_def bindE_def split: if_splits sum.splits dest: copyPair_toAttr)

lemma ratioItem_toAttr:
  assumes "ratioItem mirNode uvNode i opts s = Inr r" and "it \<in> set r"
  shows "snd (toAttr it) = ''i2''"
  using assms
  by (auto simp: ratioItem_def bindE_def split: if_splits sum.splits dest: copyPair_toAttr)

lemma driverRatioItems_toAttr:
  assumes "driverRatioItems look opts s = Inr q" and "it \<in> set q"
  shows "snd (toAttr it) = ''i2''"
proof (cases "uvDriverRatio opts")
  case False
  with assms show ?thesis by (simp add: driverRatioItems_def)
next
  case True
  show ?thesis
  proof (cases "uvDrivNodes look")
    case None
    with assms True show ?thesis by (simp add: driverRatioItems_def)
  next
    case (Some u)
    show ?thesis
    proof (cases "mirDrivNodes look")
      case None
      with assms True Some show ?thesis
        by (simp add: driverRatioItems_def split: prod.splits)
    next
      case (Some m')
      obtain u0 u1 m0 m1 where uu: "u = (u0, u1)" and mm: "m' = (m0, m1)"
        by (cases u, cases m') auto
      from assms(1) True \<open>uvDrivNodes look = Some u\<close> Some uu mm obtain a b where
        a: "ratioItem m0 u0 0 opts s = Inr a" and b: "ratioItem m1 u1 1 opts s = Inr b"
        and q: "q = a @ b"
        by (auto simp: driverRatioItems_def bindE_def split: sum.splits)
      from assms(2) q ratioItem_toAttr [OF a] ratioItem_toAttr [OF b] show ?thesis by auto
    qed
  qed
qed

lemma linkPairs_toAttr: "it \<in> set (linkPairs s ms us) \<Longrightarrow> toAttr it \<in> set ms"
  by (auto simp: linkPairs_def dest: set_zip_leftD)

lemma linkItems_toAttr:
  assumes "it \<in> set (linkItems look opts s)"
  shows "toAttr it \<in> set (linkDestinations look)"
proof (cases "mirLinkNodes look")
  case None
  have "linkItems look opts s = []"
    unfolding linkItems_def None by (simp split: option.split prod.split)
  with assms show ?thesis by simp
next
  case (Some m')
  obtain m0 m1 where mm: "m' = (m0, m1)" by (cases m') auto
  show ?thesis
  proof (cases "uvLinkNodes look")
    case None
    have "linkItems look opts s = []"
      unfolding linkItems_def None by simp
    with assms show ?thesis by simp
  next
    case (Some u)
    obtain u0 u1 where uu: "u = (u0, u1)" by (cases u) auto
    have li: "linkItems look opts s
        = (if drivenOffsetRatios opts then linkPairs s m0 u0 @ linkPairs s m1 u1 else [])"
      unfolding linkItems_def Some \<open>mirLinkNodes look = Some m'\<close> mm uu by simp
    have "it \<in> set (linkPairs s m0 u0) \<or> it \<in> set (linkPairs s m1 u1)"
    proof (cases "drivenOffsetRatios opts")
      case True
      with assms li show ?thesis by simp
    next
      case False
      with assms li show ?thesis by simp
    qed
    then have "toAttr it \<in> set m0 \<or> toAttr it \<in> set m1"
      using linkPairs_toAttr by blast
    then show ?thesis
      by (simp add: linkDestinations_def \<open>mirLinkNodes look = Some m'\<close> mm)
  qed
qed


lemma uvDriverAttrs_found:
  "controlObj u = Inr (Some n) \<Longrightarrow> attrValue s (n, ''ou'') \<noteq> None \<Longrightarrow>
     attrValue s (n, ''ov'') \<noteq> None \<Longrightarrow> uvDriverAttrs u s = Inr True"
  by (simp add: uvDriverAttrs_def hasAttr_def)

lemma offsetItems_found:
  assumes "offsets opts" and "controlObj self = Inr (Some c)" and "controlObj m = Inr (Some mc)"
    and "attrValue s (c, ''ou'') \<noteq> None" and "attrValue s (c, ''ov'') \<noteq> None"
    and "attrValue s (mc, ''ou'') \<noteq> None" and "attrValue s (mc, ''ov'') \<noteq> None"
  shows "offsetItems self m (Some mc) opts s =
     Inr [\<lparr>toAttr = (mc, ''ou''), fromAttr = (c, ''ou''),
           uvIndex = (if opposingOffsets opts then 2 else 0), mirrorSpec = None\<rparr>,
          \<lparr>toAttr = (mc, ''ov''), fromAttr = (c, ''ov''),
           uvIndex = (if opposingOffsets opts then 2 else 1), mirrorSpec = None\<rparr>]"
  unfolding offsetItems_def
  by (simp add: assms uvDriverAttrs_found [OF assms(2)] uvDriverAttrs_found [OF assms(3)]
        copyPair_found bindE_def)

lemma writeMirrorValues_of_copy:
  assumes "copyValuesToMirror self look opts s = (Inr (Some m), s')"
  shows "writeMirrorValues self m look opts s = (None, s')"
proof (cases "isSide self")
  case (Inl e)
  with assms show ?thesis by (simp add: copyValuesToMirror_def)
next
  case (Inr sd)
  show ?thesis
  proof (cases "sd = Some True")
    case False
    with assms Inr show ?thesis by (simp add: copyValuesToMirror_def split: if_splits)
  next
    case True
    show ?thesis
    proof (cases "getMirrorObject self (findUnit look) (strict opts)")
      case (Inl e)
      with assms Inr True show ?thesis by (simp add: copyValuesToMirror_def)
    next
      case found: (Inr r)
      show ?thesis
      proof (cases r)
        case None
        with assms Inr True found show ?thesis by (simp add: copyValuesToMirror_def)
      next
        case (Some mo)
        obtain e1 s1 where w: "writeMirrorValues self mo look opts s = (e1, s1)"
          by (cases "writeMirrorValues self mo look opts s") auto
        from assms Inr True found Some w show ?thesis
          by (cases e1) (simp_all add: copyValuesToMirror_def)
      qed
    qed
  qed
qed

lemma mirroredValue_plain:
  "mirroredValue a \<lparr>toAttr = t, fromAttr = f, uvIndex = k, mirrorSpec = None\<rparr> val
     = (if k = a then - val else val)"
  by (simp add: mirroredValue_def)

text \<open>
  C4, amended: for every copyValuesToMirror call that returns the mirror unit, with the
  offsets category selected, both units exposing the offset attributes and the mirror's
  offset attributes free to change (and not among the mirror's link-ratio plugs): when
  opposing offsets is requested, the mirror's offset U and V are the source's offset U
  and V, copied verbatim; when it is not requested, the offset on the mirror axis is
  written negated (reflected about 0) and the offset on the other axis is copied
  verbatim.
\<close>

theorem copyValuesToMirror_offsets:
  assumes run: "copyValuesToMirror self look opts s = (Inr (Some m), s')"
    and sel: "offsets opts"
    and ctrl: "controlObj self = Inr (Some c)" and mctrl: "controlObj m = Inr (Some mc)"
    and srcU: "attrValue s (c, ''ou'') = Some ou" and srcV: "attrValue s (c, ''ov'') = Some ov"
    and dstU: "isFreeToChange s (mc, ''ou'')" and dstV: "isFreeToChange s (mc, ''ov'')"
    and linkU: "(mc, ''ou'') \<notin> set (linkDestinations look)"
    and linkV: "(mc, ''ov'') \<notin> set (linkDestinations look)"
  shows "(opposingOffsets opts \<longrightarrow>
            attrValue s' (mc, ''ou'') = Some ou \<and> attrValue s' (mc, ''ov'') = Some ov)
       \<and> (\<not> opposingOffsets opts \<longrightarrow>
            attrValue s' (mc, ''ou'') = Some (if axis opts = ''v'' then ou else - ou)
            \<and> attrValue s' (mc, ''ov'') = Some (if axis opts = ''v'' then - ov else ov))"
proof -
  let ?a = "axisValOf (axis opts)"
  let ?iu = "\<lparr>toAttr = (mc, ''ou''), fromAttr = (c, ''ou''),
              uvIndex = (if opposingOffsets opts then 2 else 0), mirrorSpec = None\<rparr>"
  let ?iv = "\<lparr>toAttr = (mc, ''ov''), fromAttr = (c, ''ov''),
              uvIndex = (if opposingOffsets opts then 2 else 1), mirrorSpec = None\<rparr>"
  let ?wu = "mirroredValue ?a ?iu ou"
  let ?wv = "mirroredValue ?a ?iv ov"
  have dstE: "attrValue s (mc, ''ou'') \<noteq> None" "attrValue s (mc, ''ov'') \<noteq> None"
    using dstU dstV by (simp_all add: isFreeToChange_def)
  have offs: "offsetItems self m (Some mc) opts s = Inr [?iu, ?iv]"
    by (rule offsetItems_found [OF sel ctrl mctrl _ _ dstE]) (simp_all add: srcU srcV)
  from writeMirrorValues_of_copy [OF run]
  have wm: "writeMirrorValues self m look opts s = (None, s')" .
  then obtain items where tf: "toFromAttrs self m (Some mc) look opts s = Inr items"
    and sv: "setValues ?a items s = (None, s')"
    unfolding writeMirrorValues_def mctrl
    by (cases "toFromAttrs self m (Some mc) look opts s") simp_all
  from tf obtain base where b: "baseItems self (Some mc) opts s = Inr base"
    unfolding toFromAttrs_def bindE_def
    by (cases "baseItems self (Some mc) opts s") simp_all
  from tf b offs obtain radius where r: "radiusItems self m opts s = Inr radius"
    unfolding toFromAttrs_def bindE_def
    by (cases "radiusItems self m opts s") simp_all
  from tf b offs r obtain ratios where q: "driverRatioItems look opts s = Inr ratios"
    unfolding toFromAttrs_def bindE_def
    by (cases "driverRatioItems look opts s") simp_all
  let ?rest = "radius @ ratios @ linkItems look opts s"
  from tf b offs r q have items: "items = base @ [?iu, ?iv] @ ?rest"
    unfolding toFromAttrs_def bindE_def by simp
  from sv obtain s1 where sb: "setValues ?a base s = (None, s1)"
    and sr: "setValues ?a ([?iu, ?iv] @ ?rest) s1 = (None, s')"
    unfolding items by (rule setValues_append_ok)
  from sr obtain s3 where so: "setValues ?a [?iu, ?iv] s1 = (None, s3)"
    and sl: "setValues ?a ?rest s3 = (None, s')"
    by (rule setValues_append_ok)
  have base_off: "p \<notin> toAttr ` set base" if "snd p = ''ou'' \<or> snd p = ''ov''" for p
    using that baseItems_toAttr [OF b] by force
  have v1: "attrValue s1 p = attrValue s p" if "snd p = ''ou'' \<or> snd p = ''ov''" for p
    using setValues_untouched [OF base_off [OF that], of ?a s] sb by simp
  have f1: "isFreeToChange s1 p = isFreeToChange s p" for p
    by (rule setValues_free [OF sb])
  let ?s2 = "s1\<lparr>attrValue := (attrValue s1)((mc, ''ou'') \<mapsto> ?wu)\<rparr>"
  let ?s3 = "?s2\<lparr>attrValue := (attrValue ?s2)((mc, ''ov'') \<mapsto> ?wv)\<rparr>"
  have gU: "getAttr s1 (c, ''ou'') = Inr ou"
    by (simp add: getAttr_def v1 srcU)
  have fU: "isFreeToChange s1 (mc, ''ou'')"
    using dstU by (simp add: f1)
  have wU: "setAttr s1 (mc, ''ou'') ?wu = Inr ?s2"
    by (rule setAttr_free [OF fU])
  have gV: "getAttr ?s2 (c, ''ov'') = Inr ov"
    by (simp add: getAttr_def v1 srcV)
  have fV1: "isFreeToChange s1 (mc, ''ov'')"
    using dstV by (simp add: f1)
  have fV: "isFreeToChange ?s2 (mc, ''ov'')"
    using fV1 by (simp add: isFreeToChange_def)
  have wV: "setAttr ?s2 (mc, ''ov'') ?wv = Inr ?s3"
    by (rule setAttr_free [OF fV])
  have "setValues ?a [?iu, ?iv] s1 = (None, ?s3)"
    using fU fV by (simp add: gU wU gV wV)
  with so have s3: "s3 = ?s3" by simp
  have rest_off: "p \<notin> toAttr ` set ?rest" if "p = (mc, ''ou'') \<or> p = (mc, ''ov'')" for p
  proof
    assume "p \<in> toAttr ` set ?rest"
    then obtain it where it: "it \<in> set ?rest" and p: "p = toAttr it" by auto
    from it consider "it \<in> set radius" | "it \<in> set ratios" | "it \<in> set (linkItems look opts s)"
      by auto
    then show False
    proof cases
      case 1
      from radiusItems_toAttr [OF r 1] p that show False by auto
    next
      case 2
      from driverRatioItems_toAttr [OF q 2] p that show False by auto
    next
      case 3
      from linkItems_toAttr [OF 3] p that linkU linkV show False by auto
    qed
  qed
  have endU: "attrValue s' (mc, ''ou'') = Some ?wu"
    using setValues_untouched [OF rest_off, of "(mc, ''ou'')" ?a s3] sl by (simp add: s3)
  have endV: "attrValue s' (mc, ''ov'') = Some ?wv"
    using setValues_untouched [OF rest_off, of "(mc, ''ov'')" ?a s3] sl by (simp add: s3)
  show ?thesis
    unfolding endU endV by (simp add: mirroredValue_plain axisValOf_def)
qed


lemma browUnit_side: "side browUnit = Inr (Some ''l'')"
  by (simp add: side_def nameObj_def topTransform_def hasTransform_def typeString_def
        browUnit_def standardType_def startswith_def sideChars_def)

lemma browUnit_mirror:
  "getMirrorObject browUnit (findUnit pairLookups) True = Inr (Some mirrorBrowUnit)"
proof -
  have n: "nameObj browUnit = Inr (Some ''L_brow1'')"
    by (simp add: nameObj_def topTransform_def hasTransform_def typeString_def
          browUnit_def standardType_def)
  have p: "sidePrefix browUnit = [''L_'', ''R_'', ''M_'']"
    by (simp add: browUnit_def)
  have g: "py_replace ''L_brow1'' ''L_'' ''R_'' = ''R_brow1''"
    by (simp add: py_replace_def)
  show ?thesis
    unfolding getMirrorObject_def browUnit_side mirrorByName_def n p
    by (simp add: sideChars_def g pairLookups_def)
qed

lemma mirrorBrowUnit_control: "controlObj mirrorBrowUnit = Inr (Some ''R_brow_J_1'')"
  by (simp add: controlObj_def mirrorBrowUnit_def standardType_def)

lemma pairScene_values:
  "attrValue pairScene (''L_brow_J_1'', ''ou'') = Some 1"
  "attrValue pairScene (''L_brow_J_1'', ''ov'') = Some 2"
  "attrValue pairScene (''R_brow_J_1'', ''ou'') = Some 0"
  "attrValue pairScene (''R_brow_J_1'', ''ov'') = Some 0"
  by (simp_all add: pairScene_def browValues_def)

lemma pairScene_free:
  "isFreeToChange pairScene (''R_brow_J_1'', ''ou'')"
  "isFreeToChange pairScene (''R_brow_J_1'', ''ov'')"
  by (simp_all add: isFreeToChange_def pairScene_def browScene_def)

lemma offsetsOnly_fields:
  "baseValues (offsetsOnly b) = False" "offsets (offsetsOnly b) = True"
  "axis (offsetsOnly b) = ''u''" "strict (offsetsOnly b) = True"
  "opposingOffsets (offsetsOnly b) = b" "jntRadius (offsetsOnly b) = False"
  "uvDriverRatio (offsetsOnly b) = False" "drivenOffsetRatios (offsetsOnly b) = False"
  by (simp_all add: offsetsOnly_def)

lemma pair_items:
  "toFromAttrs browUnit mirrorBrowUnit (Some ''R_brow_J_1'') pairLookups (offsetsOnly b) pairScene
     = Inr [\<lparr>toAttr = (''R_brow_J_1'', ''ou''), fromAttr = (''L_brow_J_1'', ''ou''),
              uvIndex = (if b then 2 else 0), mirrorSpec = None\<rparr>,
            \<lparr>toAttr = (''R_brow_J_1'', ''ov''), fromAttr = (''L_brow_J_1'', ''ov''),
              uvIndex = (if b then 2 else 1), mirrorSpec = None\<rparr>]"
proof -
  have o: "offsetItems browUnit mirrorBrowUnit (Some ''R_brow_J_1'') (offsetsOnly b) pairScene
     = Inr [\<lparr>toAttr = (''R_brow_J_1'', ''ou''), fromAttr = (''L_brow_J_1'', ''ou''),
              uvIndex = (if b then 2 else 0), mirrorSpec = None\<rparr>,
            \<lparr>toAttr = (''R_brow_J_1'', ''ov''), fromAttr = (''L_brow_J_1'', ''ov''),
              uvIndex = (if b then 2 else 1), mirrorSpec = None\<rparr>]"
    using offsetItems_found [OF _ browUnit_control mirrorBrowUnit_control,
        of "offsetsOnly b" pairScene]
    by (simp add: offsetsOnly_fields pairScene_values)
  show ?thesis
    unfolding toFromAttrs_def o
    by (simp add: bindE_def baseItems_def radiusItems_def driverRatioItems_def linkItems_def
          offsetsOnly_fields)
qed

lemma pair_run:
  "copyValuesToMirror browUnit pairLookups (offsetsOnly b) pairScene
     = (Inr (Some mirrorBrowUnit),
        pairScene\<lparr>attrValue := (attrValue pairScene)
          ((''R_brow_J_1'', ''ou'') \<mapsto> (if b then 1 else - 1), (''R_brow_J_1'', ''ov'') \<mapsto> 2)\<rparr>)"
proof -
  have w: "writeMirrorValues browUnit mirrorBrowUnit pairLookups (offsetsOnly b) pairScene
     = (None, pairScene\<lparr>attrValue := (attrValue pairScene)
          ((''R_brow_J_1'', ''ou'') \<mapsto> (if b then 1 else - 1), (''R_brow_J_1'', ''ov'') \<mapsto> 2)\<rparr>)"
    unfolding writeMirrorValues_def mirrorBrowUnit_control
    using pairScene_free
    by (simp add: pair_items offsetsOnly_fields axisValOf_def getAttr_def pairScene_values
          setAttr_def isFreeToChange_def mirroredValue_def)
  show ?thesis
    unfolding copyValuesToMirror_def isSide_def browUnit_side
    by (simp add: sideChars_def offsetsOnly_fields browUnit_mirror w)
qed

text \<open>
  C4, the claim as stated, has the two cases the wrong way round: on the U axis, with the
  source offset U at 1, requesting opposing offsets writes 1 to the mirror, and not
  requesting them writes -1.
\<close>

theorem copyValuesToMirror_opposing_counterexample:
  "attrValue pairScene (''L_brow_J_1'', ''ou'') = Some 1
   \<and> fst (copyValuesToMirror browUnit pairLookups (offsetsOnly True) pairScene)
       = Inr (Some mirrorBrowUnit)
   \<and> attrValue (snd (copyValuesToMirror browUnit pairLookups (offsetsOnly True) pairScene))
       (''R_brow_J_1'', ''ou'') = Some 1
   \<and> fst (copyValuesToMirror browUnit pairLookups (offsetsOnly False) pairScene)
       = Inr (Some mirrorBrowUnit)
   \<and> attrValue (snd (copyValuesToMirror browUnit pairLookups (offsetsOnly False) pairScene))
       (''R_brow_J_1'', ''ou'') = Some (- 1)"
  by (simp add: pair_run pairScene_values)

theorem copyValuesToMirror_offsets_witness:
  "attrValue (snd (copyValuesToMirror browUnit pairLookups (offsetsOnly True) pairScene))
       (''R_brow_J_1'', ''ou'') = Some 1
   \<and> attrValue (snd (copyValuesToMirror browUnit pairLookups (offsetsOnly True) pairScene))
       (''R_brow_J_1'', ''ov'') = Some 2
   \<and> attrValue (snd (copyValuesToMirror browUnit pairLookups (offsetsOnly False) pairScene))
       (''R_brow_J_1'', ''ou'') = Some (- 1)
   \<and> attrValue (snd (copyValuesToMirror browUnit pairLookups (offsetsOnly False) pairScene))
       (''R_brow_J_1'', ''ov'') = Some 2"
proof -
  have l: "(''R_brow_J_1'', ''ou'') \<notin> set (linkDestinations pairLookups)"
    "(''R_brow_J_1'', ''ov'') \<notin> set (linkDestinations pairLookups)"
    by (simp_all add: linkDestinations_def pairLookups_def)
  have sel: "offsets (offsetsOnly b)" for b by (simp add: offsetsOnly_fields)
  have run: "copyValuesToMirror browUnit pairLookups (offsetsOnly b) pairScene
      = (Inr (Some mirrorBrowUnit),
         snd (copyValuesToMirror browUnit pairLookups (offsetsOnly b) pairScene))" for b
    by (simp add: pair_run)
  show ?thesis
    using copyValuesToMirror_offsets [OF run [of True] sel browUnit_control mirrorBrowUnit_control
        pairScene_values(1,2) pairScene_free l]
      copyValuesToMirror_offsets [OF run [of False] sel browUnit_control mirrorBrowUnit_control
        pairScene_values(1,2) pairScene_free l]
    by (simp add: offsetsOnly_fields)
qed


end
